theory Spec2Isabelle
  imports Complex_Main "HOL-Library.Word"
begin

unbundle bit_operations_syntax

section \<open>The cluster coordination core (node/Cluster.cpp)\<close>

text \<open>
  A shallow embedding of \<^verbatim>\<open>Cluster.cpp\<close>. The object's fields become a record, every member
  function a function from the old object to the new one, and every call into the rest of
  the node (the frame sender, the raw packet sender, the switch, the multicast table, the
  topology) an entry appended to a trace that is part of the state. The node clock
  \<^verbatim>\<open>RR->node->now()\<close> is the argument \<open>now\<close> of each operation. Locks are not modelled: each
  operation runs atomically.

  Names follow the source. A field \<^verbatim>\<open>_x\<close> of the cluster is \<open>c_x\<close>, a field of \<^verbatim>\<open>_Member\<close> has
  the prefix \<open>m_\<close>, a field of \<^verbatim>\<open>_PA\<close> the prefix \<open>pa_\<close>; \<^verbatim>\<open>_send\<close>, \<^verbatim>\<open>_flush\<close> and \<^verbatim>\<open>_dist3d\<close> are
  \<open>Cluster_send\<close>, \<open>Cluster_flush\<close> and \<open>dist3d\<close>. Sizes and offsets are natural numbers: every
  length in this file is bounded by a buffer of a few kilobytes, far from the range of
  \<^verbatim>\<open>unsigned int\<close>. Timestamps are 64-bit words and their differences wrap around, as in the
  code.
\<close>

subsection \<open>Bytes and buffers\<close>

type_synonym byte = "8 word"
type_synonym bytes = "byte list"
type_synonym Address = "40 word"

text \<open>
  Modelled from the spec: \<^verbatim>\<open>Buffer<C>\<close> of Buffer.hpp, which is not among the sources. Sections
  4.1 and 7 have the parser skip a sub-message, or stop, at a read that leaves the frame; the
  code does so by catching the exception that the accessors \<^verbatim>\<open>operator[]\<close>, \<^verbatim>\<open>at<T>\<close> and
  \<^verbatim>\<open>field\<close> throw. Section 6 has every integer big-endian. A read is an option, \<open>None\<close>
  standing for the exception; \<open>be_word\<close> reads and \<open>be16\<close>, \<open>be_bytes\<close> write an integer.
\<close>

definition be_word :: "bytes \<Rightarrow> 'a::len word" where
  "be_word bs = foldl (\<lambda>acc b. push_bit 8 acc OR ucast b) 0 bs"

definition be16 :: "16 word \<Rightarrow> bytes" where
  "be16 w = [ucast (drop_bit 8 w), ucast w]"

definition be_bytes :: "nat \<Rightarrow> 'a::len word \<Rightarrow> bytes" where
  "be_bytes n w = map (\<lambda>i. ucast (drop_bit (8 * (n - Suc i)) w)) [0..<n]"

definition at8 :: "bytes \<Rightarrow> nat \<Rightarrow> byte option" where
  "at8 b i = (if i < length b then Some (b ! i) else None)"

definition field :: "bytes \<Rightarrow> nat \<Rightarrow> nat \<Rightarrow> bytes option" where
  "field b i l = (if i + l \<le> length b then Some (take l (drop i b)) else None)"

definition at16 :: "bytes \<Rightarrow> nat \<Rightarrow> 16 word option" where
  "at16 b i = map_option be_word (field b i 2)"

definition at32 :: "bytes \<Rightarrow> nat \<Rightarrow> 32 word option" where
  "at32 b i = map_option be_word (field b i 4)"

definition at64 :: "bytes \<Rightarrow> nat \<Rightarrow> 64 word option" where
  "at64 b i = map_option be_word (field b i 8)"

text \<open>A C array of \<open>n\<close> chars that received the leading bytes of \<open>xs\<close>.\<close>

definition fit :: "nat \<Rightarrow> bytes \<Rightarrow> bytes" where
  "fit n xs = take n (xs @ replicate n 0)"

subsection \<open>Constants\<close>

text \<open>
  Modelled from the spec: the constants of Cluster.hpp, Constants.hpp and ZeroTierOne.h,
  which are not among the sources. Section 4.5 of the specification fixes
  \<^verbatim>\<open>CLUSTER_MAX_MEMBERS = 128\<close>, \<^verbatim>\<open>MAX_MESSAGE_LEN = 16384\<close>, \<^verbatim>\<open>CLUSTER_TIMEOUT = 30000\<close>,
  \<^verbatim>\<open>CLUSTER_FLUSH_PERIOD = 500\<close>, \<^verbatim>\<open>HAVE_PEER_ANNOUNCE_PERIOD = 60000\<close> and
  \<^verbatim>\<open>PEER_ACTIVITY_TIMEOUT = 300000\<close> (milliseconds).
\<close>

definition ZT_CLUSTER_MAX_MEMBERS :: nat where
  "ZT_CLUSTER_MAX_MEMBERS = 128"

definition ZT_CLUSTER_MAX_MESSAGE_LENGTH :: nat where
  "ZT_CLUSTER_MAX_MESSAGE_LENGTH = 16384"

definition ZT_CLUSTER_TIMEOUT :: "64 word" where
  "ZT_CLUSTER_TIMEOUT = 30000"

definition ZT_CLUSTER_FLUSH_PERIOD :: "64 word" where
  "ZT_CLUSTER_FLUSH_PERIOD = 500"

definition ZT_CLUSTER_HAVE_PEER_ANNOUNCE_PERIOD :: "64 word" where
  "ZT_CLUSTER_HAVE_PEER_ANNOUNCE_PERIOD = 60000"

definition ZT_PEER_ACTIVITY_TIMEOUT :: "64 word" where
  "ZT_PEER_ACTIVITY_TIMEOUT = 300000"

text \<open>
  Modelled from the spec: the enumeration \<^verbatim>\<open>StateMessageType\<close> of Cluster.hpp, with the
  type codes of section 4.2 (ALIVE 1, HAVE_PEER 2, MULTICAST_LIKE 3, COM 4, PROXY_UNITE 5,
  PROXY_SEND 6).
\<close>

datatype StateMessageType =
    STATE_MESSAGE_ALIVE
  | STATE_MESSAGE_HAVE_PEER
  | STATE_MESSAGE_MULTICAST_LIKE
  | STATE_MESSAGE_COM
  | STATE_MESSAGE_PROXY_UNITE
  | STATE_MESSAGE_PROXY_SEND

fun type_code :: "StateMessageType \<Rightarrow> byte" where
  "type_code STATE_MESSAGE_ALIVE = 1"
| "type_code STATE_MESSAGE_HAVE_PEER = 2"
| "type_code STATE_MESSAGE_MULTICAST_LIKE = 3"
| "type_code STATE_MESSAGE_COM = 4"
| "type_code STATE_MESSAGE_PROXY_UNITE = 5"
| "type_code STATE_MESSAGE_PROXY_SEND = 6"

subsection \<open>Socket addresses, identities, packets\<close>

text \<open>
  Modelled from the spec: \<^verbatim>\<open>InetAddress\<close>, \<^verbatim>\<open>Identity\<close> and \<^verbatim>\<open>Packet\<close>, whose headers are not among
  the sources. A socket address is IPv4 or IPv6 (section 3) and has an address family
  (section 4.5), raw IP bytes and a port (section 4.2, PROXY\_UNITE); the code also uses the
  default-constructed address, which has no family and converts to \<^verbatim>\<open>false\<close>. An identity
  carries the 40-bit address of its peer (sections 3 and 4.2). A packet has a destination, a
  source, a verb and a payload (sections 4.2 and 6).
\<close>

datatype family = AF_UNSPEC | AF_INET | AF_INET6

datatype InetAddress = InetAddress (ss_family: family) (rawIpData: bytes) (port: "16 word")

definition InetAddress_nil :: InetAddress where
  "InetAddress_nil = InetAddress AF_UNSPEC [] 0"

definition InetAddress_bool :: "InetAddress \<Rightarrow> bool" where
  "InetAddress_bool a = (ss_family a \<noteq> AF_UNSPEC)"

datatype Identity = Identity (identity_address: Address) (identity_keys: bytes)

datatype Packet = Packet (p_dest: Address) (p_source: Address) (p_verb: byte) (p_payload: bytes)

subsection \<open>The runtime environment\<close>

text \<open>
  What the cluster asks of the node is an input of the model. The cryptographic primitives,
  the codecs of identities and socket addresses, the topology, the version numbers and the
  geolocation callback are not among the sources and are taken as parameters, collected in
  one record. Nothing is assumed about them.

  \<open>Salsa20_keystream\<close> gives the keystream byte at a position, for a key, a nonce and the
  lengths of the calls already made on the cipher object; \<open>Poly1305_mac\<close> the MAC of a
  message under a key; \<open>SHA512_hash\<close> the digest of a message. \<open>Identity_valid\<close> is the
  conversion of an identity to \<^verbatim>\<open>bool\<close>.

  A question to the topology is answered by a function of the effects issued so far, so
  that an answer may change after a path was removed: \<open>getPeerNoCache\<close> tells whether the
  peer is known, \<open>getBestActiveAddresses\<close> gives its best IPv4 and IPv6 address (nil when
  it has none), \<open>eachPeer\<close> lists the peers with the address of their best path, if any.

  A deserialiser reads a buffer from an offset and returns the number of bytes it used, or
  throws (\<open>None\<close>). \<open>InetAddress_deserialize\<close> also returns the address object as the call
  leaves it, since the ALIVE handler keeps that object in a list even when the call threw.
  \<open>packet_capacity\<close> is the payload a \<^verbatim>\<open>Packet\<close> buffer can take before \<^verbatim>\<open>append\<close> throws.

  \<open>addressToLocationFunction\<close> is the optional geolocation callback: \<open>None\<close> when the
  pointer is null; the callback returns \<open>None\<close> where the C function returns 0, and the
  three C ints it stores otherwise. \<open>double_round\<close> is the rounding that the machine applies
  to the exact result of each \<^verbatim>\<open>double\<close> operation; the theorems on \<^verbatim>\<open>findBetterEndpoint\<close> hold for
  every rounding, and \<open>binary64_round\<close> below is the one of the IEEE 754 format.
\<close>

datatype event =
    SendFunction "16 word" bytes
  | PutPacket InetAddress InetAddress bytes
  | SwitchSend Packet bool "64 word"
  | MulticasterAdd "64 word" "64 word" "48 word" "32 word" Address
  | RemovePathByAddress Address InetAddress
  | SaveIdentity Identity

record RuntimeEnvironment =
  Salsa20_keystream :: "bytes \<Rightarrow> bytes \<Rightarrow> nat list \<Rightarrow> nat \<Rightarrow> byte"
  Poly1305_mac :: "bytes \<Rightarrow> bytes \<Rightarrow> bytes"
  SHA512_hash :: "bytes \<Rightarrow> bytes"
  InetAddress_serialize :: "InetAddress \<Rightarrow> bytes"
  InetAddress_deserialize :: "bytes \<Rightarrow> nat \<Rightarrow> InetAddress \<times> nat option"
  Identity_serialize :: "Identity \<Rightarrow> bytes"
  Identity_deserialize :: "bytes \<Rightarrow> nat \<Rightarrow> (Identity \<times> nat) option"
  Identity_valid :: "Identity \<Rightarrow> bool"
  getPeerNoCache :: "event list \<Rightarrow> Address \<Rightarrow> 64 word \<Rightarrow> bool"
  getBestActiveAddresses :: "event list \<Rightarrow> Address \<Rightarrow> 64 word \<Rightarrow> InetAddress \<times> InetAddress"
  eachPeer :: "event list \<Rightarrow> 64 word \<Rightarrow> (Identity \<times> InetAddress option) list"
  identity_local :: Address
  VERB_RENDEZVOUS :: byte
  packet_capacity :: nat
  version_major :: "16 word"
  version_minor :: "16 word"
  version_revision :: "16 word"
  proto_version :: byte
  addressToLocationFunction :: "(InetAddress \<Rightarrow> (32 word \<times> 32 word \<times> 32 word) option) option"
  double_round :: "real \<Rightarrow> real"

text \<open>
  Modelled from the spec: the classes \<^verbatim>\<open>Salsa20\<close> and \<^verbatim>\<open>Poly1305\<close>, whose headers are not among the
  sources. Section 4.1 describes a stream cipher with a 32-byte key and an 8-byte nonce
  whose keystream first yields the 32-byte one-time MAC key and then encrypts the body,
  unsealing being the mirror of sealing, and a one-time MAC of 16 bytes. The cipher object
  is a key, a nonce and the lengths of the calls already made on it; a call XORs its input
  with the keystream for that key, nonce and history, and \<^verbatim>\<open>decrypt12\<close> is \<^verbatim>\<open>encrypt12\<close>. The MAC
  is a C array of 16 bytes.
\<close>

datatype Salsa20 = Salsa20 bytes bytes "nat list"

definition encrypt12 :: "('z RuntimeEnvironment_scheme) \<Rightarrow> Salsa20 \<Rightarrow> bytes \<Rightarrow> bytes \<times> Salsa20" where
  "encrypt12 RR s inp =
     (case s of Salsa20 k iv h \<Rightarrow>
        (map (\<lambda>i. (inp ! i) XOR Salsa20_keystream RR k iv h i) [0..<length inp],
         Salsa20 k iv (h @ [length inp])))"

definition decrypt12 :: "('z RuntimeEnvironment_scheme) \<Rightarrow> Salsa20 \<Rightarrow> bytes \<Rightarrow> bytes \<times> Salsa20" where
  "decrypt12 RR s inp = encrypt12 RR s inp"

definition Poly1305_compute :: "('z RuntimeEnvironment_scheme) \<Rightarrow> bytes \<Rightarrow> bytes \<Rightarrow> bytes" where
  "Poly1305_compute RR data k = fit 16 (Poly1305_mac RR data k)"

text \<open>\<^verbatim>\<open>keytmp[i] ^= iv[i]\<close> for the first eight bytes of a 32-byte key.\<close>

definition xor_iv :: "bytes \<Rightarrow> bytes \<Rightarrow> bytes" where
  "xor_iv k iv = map2 (XOR) (take 8 k) (take 8 iv) @ drop 8 k"

text \<open>
  The link key of a member (constructor and \<^verbatim>\<open>addMember\<close>): the master secret with its
  first 16-bit word XORed with the id in network byte order, hashed twice, the first 32
  bytes kept.
\<close>

definition link_key :: "('z RuntimeEnvironment_scheme) \<Rightarrow> bytes \<Rightarrow> 16 word \<Rightarrow> bytes" where
  "link_key RR masterSecret memberId =
     (let stmp = fit 64 masterSecret;
          stmp1 = map2 (XOR) (take 2 stmp) (be16 memberId) @ drop 2 stmp
      in fit 32 (SHA512_hash RR (fit 64 (SHA512_hash RR stmp1))))"

subsection \<open>The cluster object\<close>

record PA =
  pa_ts :: "64 word"
  pa_mid :: "16 word"

record Member =
  m_lastReceivedAliveAnnouncement :: "64 word"
  m_lastAnnouncedAliveTo :: "64 word"
  m_load :: "64 word"
  m_x :: "32 word"
  m_y :: "32 word"
  m_z :: "32 word"
  m_key :: bytes
  m_zeroTierPhysicalEndpoints :: "InetAddress list"
  m_q :: bytes

text \<open>
  The fields of \<^verbatim>\<open>Cluster\<close>. \<open>c_entropy\<close> and \<open>c_drawn\<close> stand for \<^verbatim>\<open>Utils::getSecureRandom\<close>:
  the bytes it will return and how many were taken. \<open>c_trace\<close> is the list of calls made
  into the node, oldest first.
\<close>

record Cluster =
  c_masterSecret :: bytes
  c_key :: bytes
  c_x :: "32 word"
  c_y :: "32 word"
  c_z :: "32 word"
  c_id :: "16 word"
  c_zeroTierPhysicalEndpoints :: "InetAddress list"
  c_members :: "16 word \<Rightarrow> Member"
  c_memberIds :: "16 word list"
  c_peerAffinities :: "Address \<rightharpoonup> PA"
  c_lastCleanedPeerAffinities :: "64 word"
  c_lastCheckedPeersForAnnounce :: "64 word"
  c_lastFlushed :: "64 word"
  c_entropy :: "nat \<Rightarrow> byte"
  c_drawn :: nat
  c_trace :: "event list"

definition getSecureRandom :: "nat \<Rightarrow> Cluster \<Rightarrow> bytes \<times> Cluster" where
  "getSecureRandom n c =
     (map (c_entropy c) [c_drawn c..<c_drawn c + n], c\<lparr>c_drawn := c_drawn c + n\<rparr>)"

definition emit :: "event \<Rightarrow> Cluster \<Rightarrow> Cluster" where
  "emit e c = c\<lparr>c_trace := c_trace c @ [e]\<rparr>"

subsection \<open>The framer: \<^verbatim>\<open>_flush\<close> and \<^verbatim>\<open>_send\<close>\<close>

text \<open>
  A fresh queue: 16 random bytes, room for the MAC, the sender's and the recipient's id.
  \<^verbatim>\<open>addSize(8)\<close> makes the room without writing to it: the eight bytes \<open>room\<close> are what the
  buffer held at offsets 16 to 23 before, and \<^verbatim>\<open>_flush\<close> overwrites them before the buffer
  leaves.
\<close>

definition fresh_queue :: "16 word \<Rightarrow> 16 word \<Rightarrow> bytes \<Rightarrow> bytes \<Rightarrow> bytes" where
  "fresh_queue fromId toId iv room = iv @ room @ be16 fromId @ be16 toId"

text \<open>The sealed frame that \<^verbatim>\<open>_flush\<close> hands to the send function for the queue \<open>q\<close>.\<close>

definition seal :: "('z RuntimeEnvironment_scheme) \<Rightarrow> bytes \<Rightarrow> bytes \<Rightarrow> bytes" where
  "seal RR k q =
     (let keytmp = xor_iv k q;
          s20 = Salsa20 keytmp (take 8 (drop 8 q)) [];
          (polykey, s20a) = encrypt12 RR s20 (replicate 32 0);
          (ct, s20b) = encrypt12 RR s20a (drop 24 q);
          q1 = take 24 q @ ct;
          mac = Poly1305_compute RR (drop 24 q1) polykey
      in take 16 q1 @ take 8 mac @ drop 24 q1)"

definition Cluster_flush :: "('z RuntimeEnvironment_scheme) \<Rightarrow> 16 word \<Rightarrow> Cluster \<Rightarrow> Cluster" where
  "Cluster_flush RR memberId c =
     (let m = c_members c memberId in
      if length (m_q m) > 24 + 2 + 2 then
        let frame = seal RR (m_key m) (m_q m);
            c1 = emit (SendFunction memberId frame) c;
            (iv, c2) = getSecureRandom 16 c1
        in c2\<lparr>c_members := (c_members c2)
                (memberId := (c_members c2 memberId)
                   \<lparr>m_q := fresh_queue (c_id c2) memberId iv (take 8 (drop 16 frame))\<rparr>)\<rparr>
      else c)"

text \<open>
  \<^verbatim>\<open>_send\<close> appends one sub-message: a 16-bit length (type byte and payload), the type and
  the payload. The queue is a \<^verbatim>\<open>Buffer\<close> of capacity \<^verbatim>\<open>ZT_CLUSTER_MAX_MESSAGE_LENGTH\<close>; the two
  checks keep the appends inside it (lemma \<open>Cluster_send_capacity\<close> below), so they do not
  throw.
\<close>

definition Cluster_send ::
  "('z RuntimeEnvironment_scheme) \<Rightarrow> 16 word \<Rightarrow> StateMessageType \<Rightarrow> bytes \<Rightarrow> Cluster \<Rightarrow> Cluster" where
  "Cluster_send RR memberId type msg c =
     (let len = length msg in
      if len + 3 > ZT_CLUSTER_MAX_MESSAGE_LENGTH - (24 + 2 + 2) then c
      else
        let c1 = (if length (m_q (c_members c memberId)) + len + 3 > ZT_CLUSTER_MAX_MESSAGE_LENGTH
                  then Cluster_flush RR memberId c else c);
            m = c_members c1 memberId
        in c1\<lparr>c_members := (c_members c1)
                (memberId := m\<lparr>m_q := m_q m @ be16 (of_nat (len + 1)) @ [type_code type] @ msg\<rparr>)\<rparr>)"

subsection \<open>Membership\<close>

text \<open>
  Modelled from the spec: \<^verbatim>\<open>_Member::clear\<close> of Cluster.hpp, which section 4.3 describes as
  zeroing the record; the key is rewritten by \<^verbatim>\<open>addMember\<close> right after.
\<close>

definition Member_clear :: "Member \<Rightarrow> Member" where
  "Member_clear m = m\<lparr>m_lastReceivedAliveAnnouncement := 0, m_lastAnnouncedAliveTo := 0,
     m_load := 0, m_x := 0, m_y := 0, m_z := 0, m_zeroTierPhysicalEndpoints := [], m_q := []\<rparr>"

definition Member_init :: Member where
  "Member_init = \<lparr>m_lastReceivedAliveAnnouncement = 0, m_lastAnnouncedAliveTo = 0,
     m_load = 0, m_x = 0, m_y = 0, m_z = 0, m_key = replicate 32 0,
     m_zeroTierPhysicalEndpoints = [], m_q = []\<rparr>"

text \<open>
  In \<^verbatim>\<open>addMember\<close> the room for the MAC holds what the member's buffer held there from an
  earlier membership; zero stands for memory that was never written.

  The constructor. The master secret is what \<^verbatim>\<open>RR->identity.sha512PrivateKey\<close> returns, an
  argument here, like the bytes the random source will give.
\<close>

definition Cluster_new ::
  "('z RuntimeEnvironment_scheme) \<Rightarrow> bytes \<Rightarrow> 16 word \<Rightarrow> InetAddress list
     \<Rightarrow> 32 word \<Rightarrow> 32 word \<Rightarrow> 32 word \<Rightarrow> (nat \<Rightarrow> byte) \<Rightarrow> Cluster" where
  "Cluster_new RR masterSecret memberId endpoints x y z entropy =
     \<lparr>c_masterSecret = fit 64 masterSecret,
      c_key = link_key RR masterSecret memberId,
      c_x = x, c_y = y, c_z = z,
      c_id = memberId,
      c_zeroTierPhysicalEndpoints = endpoints,
      c_members = (\<lambda>_. Member_init),
      c_memberIds = [],
      c_peerAffinities = Map.empty,
      c_lastCleanedPeerAffinities = 0,
      c_lastCheckedPeersForAnnounce = 0,
      c_lastFlushed = 0,
      c_entropy = entropy,
      c_drawn = 0,
      c_trace = []\<rparr>"

definition addMember :: "('z RuntimeEnvironment_scheme) \<Rightarrow> 16 word \<Rightarrow> Cluster \<Rightarrow> Cluster" where
  "addMember RR memberId c =
     (if unat memberId \<ge> ZT_CLUSTER_MAX_MEMBERS \<or> memberId = c_id c then c
      else if memberId \<in> set (c_memberIds c) then c
      else
        let (iv, c1) = getSecureRandom 16 c;
            room = fit 8 (drop 16 (m_q (c_members c1 memberId)));
            m = Member_clear (c_members c1 memberId)
        in c1\<lparr>c_memberIds := sort (c_memberIds c1 @ [memberId]),
               c_members := (c_members c1)
                 (memberId := m\<lparr>m_key := link_key RR (c_masterSecret c1) memberId,
                                m_q := fresh_queue (c_id c1) memberId iv room\<rparr>)\<rparr>)"

definition removeMember :: "16 word \<Rightarrow> Cluster \<Rightarrow> Cluster" where
  "removeMember memberId c = c\<lparr>c_memberIds := filter (\<lambda>mid. mid \<noteq> memberId) (c_memberIds c)\<rparr>"

subsection \<open>\<^verbatim>\<open>sendViaCluster\<close>\<close>

text \<open>
  The body of the PROXY\_UNITE request that \<^verbatim>\<open>sendViaCluster\<close> stages in a \<^verbatim>\<open>Buffer<1024>\<close>:
  empty unless \<open>unite\<close> is set and the sending peer has an active IPv4 or IPv6 address. The
  serialised form of a socket address or of an identity is a parameter; it is a few
  bytes, and the staging buffers of \<^verbatim>\<open>sendViaCluster\<close>, \<^verbatim>\<open>replicateHavePeer\<close>,
  \<^verbatim>\<open>doPeriodicTasks\<close> and the PROXY\_UNITE handler (1024 to 4096 bytes) are taken not to
  overflow.
\<close>

definition Address_bytes :: "Address \<Rightarrow> bytes" where
  "Address_bytes a = be_bytes 5 a"

definition unite_request ::
  "('z RuntimeEnvironment_scheme) \<Rightarrow> 64 word \<Rightarrow> Address \<Rightarrow> Address \<Rightarrow> bool \<Rightarrow> Cluster \<Rightarrow> bytes" where
  "unite_request RR now fromPeerAddress toPeerAddress unite c =
     (if unite then
        let (v4, v6) =
              (if fromPeerAddress \<noteq> 0 \<and> getPeerNoCache RR (c_trace c) fromPeerAddress now
               then getBestActiveAddresses RR (c_trace c) fromPeerAddress now
               else (InetAddress_nil, InetAddress_nil));
            addrCount = (if InetAddress_bool v4 then 1 else 0) + (if InetAddress_bool v6 then 1 else (0::byte))
        in if addrCount \<noteq> 0 then
             Address_bytes toPeerAddress @ Address_bytes fromPeerAddress @ [addrCount]
               @ (if InetAddress_bool v4 then InetAddress_serialize RR v4 else [])
               @ (if InetAddress_bool v6 then InetAddress_serialize RR v6 else [])
           else []
      else [])"

definition sendViaCluster ::
  "('z RuntimeEnvironment_scheme) \<Rightarrow> 64 word \<Rightarrow> Address \<Rightarrow> Address \<Rightarrow> bytes \<Rightarrow> bool \<Rightarrow> Cluster
     \<Rightarrow> bool \<times> Cluster" where
  "sendViaCluster RR now fromPeerAddress toPeerAddress data unite c =
     (if length data > 16384 then (False, c)
      else case c_peerAffinities c toPeerAddress of
        None \<Rightarrow> (False, c)
      | Some pa \<Rightarrow>
          if pa_mid pa \<noteq> c_id c \<and> now - pa_ts pa < ZT_PEER_ACTIVITY_TIMEOUT then
            let canHasPeer = pa_mid pa;
                buf = unite_request RR now fromPeerAddress toPeerAddress unite c;
                c1 = (if length buf > 0
                      then Cluster_send RR canHasPeer STATE_MESSAGE_PROXY_UNITE buf c else c);
                eps = m_zeroTierPhysicalEndpoints (c_members c1 canHasPeer);
                c2 = (if length eps > 0
                      then emit (PutPacket InetAddress_nil (hd eps) data) c1 else c1)
            in (True, c2)
          else (False, c))"

subsection \<open>\<^verbatim>\<open>replicateHavePeer\<close>\<close>

text \<open>The loop that sends one sub-message to every member of \<^verbatim>\<open>_memberIds\<close>, in order.\<close>

definition broadcast ::
  "('z RuntimeEnvironment_scheme) \<Rightarrow> StateMessageType \<Rightarrow> bytes \<Rightarrow> Cluster \<Rightarrow> Cluster" where
  "broadcast RR type buf c = foldl (\<lambda>c' mid. Cluster_send RR mid type buf c') c (c_memberIds c)"

text \<open>
  Modelled from the spec: the default-constructed \<^verbatim>\<open>_PA\<close> of Cluster.hpp, which
  \<^verbatim>\<open>_peerAffinities[...]\<close> inserts for an absent key. Section 4.4 treats an absent entry as
  one owned by a different member: its owner is 0xffff, which is no member id (ids are
  below 128), and its timestamp 0.
\<close>

definition PA_default :: PA where
  "PA_default = \<lparr>pa_ts = 0, pa_mid = 0xffff\<rparr>"

definition affinity_entry :: "Cluster \<Rightarrow> Address \<Rightarrow> PA" where
  "affinity_entry c a = (case c_peerAffinities c a of None \<Rightarrow> PA_default | Some pa \<Rightarrow> pa)"

definition have_peer_body :: "('z RuntimeEnvironment_scheme) \<Rightarrow> Identity \<Rightarrow> InetAddress \<Rightarrow> bytes" where
  "have_peer_body RR peerId physicalAddress =
     Identity_serialize RR peerId @ InetAddress_serialize RR physicalAddress"

definition replicateHavePeer ::
  "('z RuntimeEnvironment_scheme) \<Rightarrow> 64 word \<Rightarrow> Identity \<Rightarrow> InetAddress \<Rightarrow> Cluster \<Rightarrow> Cluster" where
  "replicateHavePeer RR now peerId physicalAddress c =
     (let a = identity_address peerId;
          pa = affinity_entry c a;
          announce = broadcast RR STATE_MESSAGE_HAVE_PEER (have_peer_body RR peerId physicalAddress)
      in if pa_mid pa \<noteq> c_id c then
           announce (c\<lparr>c_peerAffinities := (c_peerAffinities c)(a \<mapsto> \<lparr>pa_ts = now, pa_mid = c_id c\<rparr>)\<rparr>)
         else if now - pa_ts pa < ZT_CLUSTER_HAVE_PEER_ANNOUNCE_PERIOD then
           c\<lparr>c_peerAffinities := (c_peerAffinities c)(a \<mapsto> pa)\<rparr>
         else
           announce (c\<lparr>c_peerAffinities := (c_peerAffinities c)(a \<mapsto> pa\<lparr>pa_ts := now\<rparr>)\<rparr>))"

subsection \<open>\<^verbatim>\<open>doPeriodicTasks\<close>\<close>

text \<open>The first branch: erase the affinity entries that are too old.\<close>

definition cleanPeerAffinities :: "64 word \<Rightarrow> Cluster \<Rightarrow> Cluster" where
  "cleanPeerAffinities now c =
     c\<lparr>c_lastCleanedPeerAffinities := now,
       c_peerAffinities := (\<lambda>k. case c_peerAffinities c k of
            None \<Rightarrow> None
          | Some v \<Rightarrow> if now - pa_ts v \<ge> ZT_PEER_ACTIVITY_TIMEOUT * 5 then None else Some v)\<rparr>"

text \<open>The second branch: \<^verbatim>\<open>_ClusterAnnouncePeers\<close> applied to every peer of the topology.\<close>

definition announcePeers :: "('z RuntimeEnvironment_scheme) \<Rightarrow> 64 word \<Rightarrow> Cluster \<Rightarrow> Cluster" where
  "announcePeers RR now c =
     foldl (\<lambda>c' (peerId, p). case p of None \<Rightarrow> c' | Some a \<Rightarrow> replicateHavePeer RR now peerId a c')
       (c\<lparr>c_lastCheckedPeersForAnnounce := now\<rparr>) (eachPeer RR (c_trace c) now)"

text \<open>
  The third branch: an ALIVE to every member that has not had one for
  \<^verbatim>\<open>ZT_CLUSTER_TIMEOUT / 2 - 1000\<close> ms, then a flush of its queue.
\<close>

definition alive_body :: "('z RuntimeEnvironment_scheme) \<Rightarrow> 64 word \<Rightarrow> Cluster \<Rightarrow> bytes" where
  "alive_body RR now c =
     be16 (version_major RR) @ be16 (version_minor RR) @ be16 (version_revision RR)
       @ [proto_version RR]
       @ (if addressToLocationFunction RR \<noteq> None
          then be_bytes 4 (c_x c) @ be_bytes 4 (c_y c) @ be_bytes 4 (c_z c)
          else be_bytes 4 (0::32 word) @ be_bytes 4 (0::32 word) @ be_bytes 4 (0::32 word))
       @ be_bytes 8 now @ be_bytes 8 (0::64 word) @ be_bytes 8 (0::64 word)
       @ [of_nat (length (c_zeroTierPhysicalEndpoints c))]
       @ concat (map (InetAddress_serialize RR) (c_zeroTierPhysicalEndpoints c))"

definition announceAliveAndFlush ::
  "('z RuntimeEnvironment_scheme) \<Rightarrow> 64 word \<Rightarrow> 16 word \<Rightarrow> Cluster \<Rightarrow> Cluster" where
  "announceAliveAndFlush RR now mid c =
     (let c1 =
        (if now - m_lastAnnouncedAliveTo (c_members c mid) \<ge> ZT_CLUSTER_TIMEOUT div 2 - 1000 then
           let c' = Cluster_send RR mid STATE_MESSAGE_ALIVE (alive_body RR now c) c
           in c'\<lparr>c_members := (c_members c')(mid := (c_members c' mid)\<lparr>m_lastAnnouncedAliveTo := now\<rparr>)\<rparr>
         else c)
      in Cluster_flush RR mid c1)"

definition flushMembers :: "('z RuntimeEnvironment_scheme) \<Rightarrow> 64 word \<Rightarrow> Cluster \<Rightarrow> Cluster" where
  "flushMembers RR now c =
     foldl (\<lambda>c' mid. announceAliveAndFlush RR now mid c') (c\<lparr>c_lastFlushed := now\<rparr>) (c_memberIds c)"

definition doPeriodicTasks :: "('z RuntimeEnvironment_scheme) \<Rightarrow> 64 word \<Rightarrow> Cluster \<Rightarrow> Cluster" where
  "doPeriodicTasks RR now c =
     (let c1 = (if now - c_lastCleanedPeerAffinities c \<ge> ZT_PEER_ACTIVITY_TIMEOUT * 5
                then cleanPeerAffinities now c else c);
          c2 = (if now - c_lastCheckedPeersForAnnounce c1 \<ge> ZT_CLUSTER_HAVE_PEER_ANNOUNCE_PERIOD div 4
                then announcePeers RR now c1 else c1);
          c3 = (if now - c_lastFlushed c2 \<ge> ZT_CLUSTER_FLUSH_PERIOD
                then flushMembers RR now c2 else c2)
      in c3)"

subsection \<open>\<^verbatim>\<open>handleIncomingStateMessage\<close>\<close>

definition secureEq :: "bytes \<Rightarrow> bytes \<Rightarrow> nat \<Rightarrow> bool" where
  "secureEq a b n = (take n a = take n b)"

text \<open>
  The first block of the handler: the length check, the MAC check and the decryption.
  \<open>None\<close> is the early \<^verbatim>\<open>return\<close>; otherwise the result is the plaintext \<^verbatim>\<open>dmsg\<close>.
\<close>

definition unseal :: "('z RuntimeEnvironment_scheme) \<Rightarrow> bytes \<Rightarrow> bytes \<Rightarrow> bytes option" where
  "unseal RR k msg =
     (if length msg < 24 \<or> length msg > ZT_CLUSTER_MAX_MESSAGE_LENGTH then None
      else
        let keytmp = xor_iv k msg;
            s20 = Salsa20 keytmp (take 8 (drop 8 msg)) [];
            (polykey, s20a) = encrypt12 RR s20 (replicate 32 0);
            mac = Poly1305_compute RR (drop 24 msg) polykey
        in if \<not> secureEq mac (drop 16 msg) 8 then None
           else Some (fst (decrypt12 RR s20a (drop 24 msg))))"

definition update_member :: "16 word \<Rightarrow> (Member \<Rightarrow> Member) \<Rightarrow> Cluster \<Rightarrow> Cluster" where
  "update_member mid f c = c\<lparr>c_members := (c_members c)(mid := f (c_members c mid))\<rparr>"

text \<open>
  The handlers of the sub-message types. Each starts at the byte after the type. A read
  that throws ends the handler (the inner \<^verbatim>\<open>catch\<close>), keeping what was written before.

  ALIVE: the endpoint loop pushes a fresh address and deserialises into it; an address that
  converts to false is popped again. The boolean tells whether the loop ran to its end.
\<close>

fun alive_endpoints ::
  "('z RuntimeEnvironment_scheme) \<Rightarrow> bytes \<Rightarrow> nat \<Rightarrow> nat \<Rightarrow> InetAddress list \<Rightarrow> InetAddress list \<times> bool" where
  "alive_endpoints RR dmsg 0 ptr acc = (acc, True)"
| "alive_endpoints RR dmsg (Suc n) ptr acc =
     (case InetAddress_deserialize RR dmsg ptr of
        (a, None) \<Rightarrow> (acc @ [a], False)
      | (a, Some l) \<Rightarrow>
          alive_endpoints RR dmsg n (ptr + l) (if InetAddress_bool a then acc @ [a] else acc))"

definition handle_ALIVE ::
  "('z RuntimeEnvironment_scheme) \<Rightarrow> 64 word \<Rightarrow> 16 word \<Rightarrow> bytes \<Rightarrow> nat \<Rightarrow> Cluster \<Rightarrow> Cluster" where
  "handle_ALIVE RR now fromMemberId dmsg ptr c =
     (case at32 dmsg (ptr + 7) of None \<Rightarrow> c | Some x \<Rightarrow>
      let c1 = update_member fromMemberId (\<lambda>m. m\<lparr>m_x := x\<rparr>) c in
      case at32 dmsg (ptr + 11) of None \<Rightarrow> c1 | Some y \<Rightarrow>
      let c2 = update_member fromMemberId (\<lambda>m. m\<lparr>m_y := y\<rparr>) c1 in
      case at32 dmsg (ptr + 15) of None \<Rightarrow> c2 | Some z \<Rightarrow>
      let c3 = update_member fromMemberId (\<lambda>m. m\<lparr>m_z := z\<rparr>) c2 in
      case at64 dmsg (ptr + 27) of None \<Rightarrow> c3 | Some l \<Rightarrow>
      let c4 = update_member fromMemberId (\<lambda>m. m\<lparr>m_load := l\<rparr>) c3 in
      case at8 dmsg (ptr + 43) of None \<Rightarrow> c4 | Some physicalAddressCount \<Rightarrow>
      let (eps, finished) = alive_endpoints RR dmsg (unat physicalAddressCount) (ptr + 44) [];
          c5 = update_member fromMemberId (\<lambda>m. m\<lparr>m_zeroTierPhysicalEndpoints := eps\<rparr>) c4
      in if finished
         then update_member fromMemberId (\<lambda>m. m\<lparr>m_lastReceivedAliveAnnouncement := now\<rparr>) c5
         else c5)"

definition handle_HAVE_PEER ::
  "('z RuntimeEnvironment_scheme) \<Rightarrow> 64 word \<Rightarrow> 16 word \<Rightarrow> bytes \<Rightarrow> nat \<Rightarrow> Cluster \<Rightarrow> Cluster" where
  "handle_HAVE_PEER RR now fromMemberId dmsg ptr c =
     (case Identity_deserialize RR dmsg ptr of None \<Rightarrow> c | Some (ident, l1) \<Rightarrow>
      case InetAddress_deserialize RR dmsg (ptr + l1) of (physicalAddress, None) \<Rightarrow> c
      | (physicalAddress, Some l2) \<Rightarrow>
        if Identity_valid RR ident then
          let c1 = (if InetAddress_bool physicalAddress
                       \<and> getPeerNoCache RR (c_trace c) (identity_address ident) now
                    then emit (RemovePathByAddress (identity_address ident) physicalAddress) c
                    else c);
              c2 = emit (SaveIdentity ident) c1
          in c2\<lparr>c_peerAffinities := (c_peerAffinities c2)
                   (identity_address ident \<mapsto> \<lparr>pa_ts = now, pa_mid = fromMemberId\<rparr>)\<rparr>
        else c)"

definition handle_MULTICAST_LIKE ::
  "64 word \<Rightarrow> bytes \<Rightarrow> nat \<Rightarrow> Cluster \<Rightarrow> Cluster" where
  "handle_MULTICAST_LIKE now dmsg ptr c =
     (case at64 dmsg ptr of None \<Rightarrow> c | Some nwid \<Rightarrow>
      case field dmsg (ptr + 8) 5 of None \<Rightarrow> c | Some address \<Rightarrow>
      case field dmsg (ptr + 13) 6 of None \<Rightarrow> c | Some mac \<Rightarrow>
      case at32 dmsg (ptr + 19) of None \<Rightarrow> c | Some adi \<Rightarrow>
      emit (MulticasterAdd now nwid (be_word mac) adi (be_word address)) c)"

text \<open>PROXY\_UNITE: the remote paths are deserialised first; a throw there ends the handler.\<close>

fun unite_paths ::
  "('z RuntimeEnvironment_scheme) \<Rightarrow> bytes \<Rightarrow> nat \<Rightarrow> nat \<Rightarrow> InetAddress list option" where
  "unite_paths RR dmsg 0 ptr = Some []"
| "unite_paths RR dmsg (Suc n) ptr =
     (case InetAddress_deserialize RR dmsg ptr of
        (a, None) \<Rightarrow> None
      | (a, Some l) \<Rightarrow> map_option (\<lambda>as. a # as) (unite_paths RR dmsg n (ptr + l)))"

definition first_of_family :: "family \<Rightarrow> InetAddress list \<Rightarrow> InetAddress" where
  "first_of_family f as = (case find (\<lambda>a. ss_family a = f) as of None \<Rightarrow> InetAddress_nil | Some a \<Rightarrow> a)"

definition handle_PROXY_UNITE ::
  "('z RuntimeEnvironment_scheme) \<Rightarrow> 64 word \<Rightarrow> 16 word \<Rightarrow> bytes \<Rightarrow> nat \<Rightarrow> Cluster \<Rightarrow> Cluster" where
  "handle_PROXY_UNITE RR now fromMemberId dmsg ptr c =
     (case field dmsg ptr 5 of None \<Rightarrow> c | Some lp \<Rightarrow>
      case field dmsg (ptr + 5) 5 of None \<Rightarrow> c | Some rp \<Rightarrow>
      case at8 dmsg (ptr + 10) of None \<Rightarrow> c | Some numRemotePeerPaths \<Rightarrow>
      case unite_paths RR dmsg (unat numRemotePeerPaths) (ptr + 11) of None \<Rightarrow> c
      | Some remotePeerPaths \<Rightarrow>
        let localPeerAddress = (be_word lp :: Address);
            remotePeerAddress = (be_word rp :: Address)
        in if getPeerNoCache RR (c_trace c) localPeerAddress now \<and> unat numRemotePeerPaths > 0 then
             let (bestLocalV4, bestLocalV6) = getBestActiveAddresses RR (c_trace c) localPeerAddress now;
                 bestRemoteV4 = first_of_family AF_INET remotePeerPaths;
                 bestRemoteV6 = first_of_family AF_INET6 remotePeerPaths;
                 forLocal = [0] @ Address_bytes remotePeerAddress;
                 forRemote = (\<lambda>n. Address_bytes remotePeerAddress @ [VERB_RENDEZVOUS RR] @ be16 n
                                  @ [0] @ Address_bytes localPeerAddress);
                 finish = (\<lambda>local remote.
                    emit (SwitchSend (Packet localPeerAddress (identity_local RR) (VERB_RENDEZVOUS RR) local)
                            True 0)
                      (Cluster_flush RR fromMemberId
                        (Cluster_send RR fromMemberId STATE_MESSAGE_PROXY_SEND remote c)))
             in if InetAddress_bool bestLocalV6 \<and> InetAddress_bool bestRemoteV6 then
                  finish (forLocal @ be16 (port bestRemoteV6) @ [16] @ fit 16 (rawIpData bestRemoteV6))
                         (forRemote (9 + 16) @ be16 (port bestLocalV6) @ [16] @ fit 16 (rawIpData bestLocalV6))
                else if InetAddress_bool bestLocalV4 \<and> InetAddress_bool bestRemoteV4 then
                  finish (forLocal @ be16 (port bestRemoteV4) @ [4] @ fit 4 (rawIpData bestRemoteV4))
                         (forRemote (9 + 4) @ be16 (port bestLocalV4) @ [4] @ fit 4 (rawIpData bestLocalV4))
                else c
           else c)"

definition handle_PROXY_SEND ::
  "('z RuntimeEnvironment_scheme) \<Rightarrow> bytes \<Rightarrow> nat \<Rightarrow> Cluster \<Rightarrow> Cluster" where
  "handle_PROXY_SEND RR dmsg ptr c =
     (case field dmsg ptr 5 of None \<Rightarrow> c | Some rcpt \<Rightarrow>
      case at8 dmsg (ptr + 5) of None \<Rightarrow> c | Some verb \<Rightarrow>
      case at16 dmsg (ptr + 6) of None \<Rightarrow> c | Some len \<Rightarrow>
      case field dmsg (ptr + 8) (unat len) of None \<Rightarrow> c | Some payload \<Rightarrow>
      if unat len > packet_capacity RR then c
      else emit (SwitchSend (Packet (be_word rcpt) (identity_local RR) verb payload) True 0) c)"

text \<open>The \<^verbatim>\<open>switch\<close> on the type byte at \<open>ptr\<close>; unknown types do nothing.\<close>

definition dispatch ::
  "('z RuntimeEnvironment_scheme) \<Rightarrow> 64 word \<Rightarrow> 16 word \<Rightarrow> bytes \<Rightarrow> nat \<Rightarrow> Cluster \<Rightarrow> Cluster" where
  "dispatch RR now fromMemberId dmsg ptr c =
     (case at8 dmsg ptr of None \<Rightarrow> c
      | Some mtype \<Rightarrow>
          if mtype = type_code STATE_MESSAGE_ALIVE then handle_ALIVE RR now fromMemberId dmsg (ptr + 1) c
          else if mtype = type_code STATE_MESSAGE_HAVE_PEER then handle_HAVE_PEER RR now fromMemberId dmsg (ptr + 1) c
          else if mtype = type_code STATE_MESSAGE_MULTICAST_LIKE then handle_MULTICAST_LIKE now dmsg (ptr + 1) c
          else if mtype = type_code STATE_MESSAGE_COM then c
          else if mtype = type_code STATE_MESSAGE_PROXY_UNITE then handle_PROXY_UNITE RR now fromMemberId dmsg (ptr + 1) c
          else if mtype = type_code STATE_MESSAGE_PROXY_SEND then handle_PROXY_SEND RR dmsg (ptr + 1) c
          else c)"

text \<open>
  The loop over the sub-messages. A length that cannot be read throws to the outer
  \<^verbatim>\<open>catch\<close>, which ends the loop; a sub-message that would end past the buffer breaks it.
\<close>

function parse_loop ::
  "('z RuntimeEnvironment_scheme) \<Rightarrow> 64 word \<Rightarrow> 16 word \<Rightarrow> bytes \<Rightarrow> nat \<Rightarrow> Cluster \<Rightarrow> Cluster" where
  "parse_loop RR now fromMemberId dmsg ptr c =
     (if ptr < length dmsg then
        case at16 dmsg ptr of None \<Rightarrow> c
        | Some mlen \<Rightarrow>
            let nextPtr = ptr + 2 + unat mlen in
            if nextPtr > length dmsg then c
            else parse_loop RR now fromMemberId dmsg nextPtr (dispatch RR now fromMemberId dmsg (ptr + 2) c)
      else c)"
  by pat_completeness auto
termination
  by (relation "measure (\<lambda>(RR, now, fromMemberId, dmsg, ptr, c). length dmsg - ptr)") auto

declare parse_loop.simps [simp del]

definition handleIncomingStateMessage ::
  "('z RuntimeEnvironment_scheme) \<Rightarrow> 64 word \<Rightarrow> bytes \<Rightarrow> Cluster \<Rightarrow> Cluster" where
  "handleIncomingStateMessage RR now msg c =
     (case unseal RR (c_key c) msg of None \<Rightarrow> c
      | Some dmsg \<Rightarrow>
          if length dmsg < 4 then c
          else case at16 dmsg 0 of None \<Rightarrow> c
          | Some fromMemberId \<Rightarrow>
              if fromMemberId = c_id c then c
              else case at16 dmsg 2 of None \<Rightarrow> c
              | Some toMemberId \<Rightarrow>
                  if toMemberId \<noteq> c_id c then c
                  else if fromMemberId \<notin> set (c_memberIds c) then c
                  else parse_loop RR now fromMemberId dmsg 4 c)"

text \<open>The offsets at which the loop, started at \<open>ptr\<close>, finds a sub-message to dispatch.\<close>

function offsets :: "bytes \<Rightarrow> nat \<Rightarrow> nat list" where
  "offsets dmsg ptr =
     (if ptr < length dmsg then
        case at16 dmsg ptr of None \<Rightarrow> []
        | Some mlen \<Rightarrow>
            let nextPtr = ptr + 2 + unat mlen in
            if nextPtr > length dmsg then [] else ptr # offsets dmsg nextPtr
      else [])"
  by pat_completeness auto
termination
  by (relation "measure (\<lambda>(dmsg, ptr). length dmsg - ptr)") auto

declare offsets.simps [simp del]

subsection \<open>\<^verbatim>\<open>findBetterEndpoint\<close>\<close>

text \<open>
  \<^verbatim>\<open>_dist3d\<close> computes in \<^verbatim>\<open>double\<close>: each conversion, subtraction, product, sum and the
  square root is the exact real result, rounded.
\<close>

definition dist3d ::
  "('z RuntimeEnvironment_scheme) \<Rightarrow> 32 word \<Rightarrow> 32 word \<Rightarrow> 32 word \<Rightarrow> 32 word \<Rightarrow> 32 word \<Rightarrow> 32 word \<Rightarrow> real" where
  "dist3d RR x1 y1 z1 x2 y2 z2 =
     (let fl = double_round RR;
          dx = fl (fl (real_of_int (sint x2)) - fl (real_of_int (sint x1)));
          dy = fl (fl (real_of_int (sint y2)) - fl (real_of_int (sint y1)));
          dz = fl (fl (real_of_int (sint z2)) - fl (real_of_int (sint z1)))
      in fl (sqrt (fl (fl (fl (dx * dx) + fl (dy * dy)) + fl (dz * dz)))))"

text \<open>
  A member is considered when it is alive, has sent a location and has at least one
  physical endpoint.
\<close>

definition considered :: "64 word \<Rightarrow> Member \<Rightarrow> bool" where
  "considered now m =
     (now - m_lastReceivedAliveAnnouncement m < ZT_CLUSTER_TIMEOUT
      \<and> (m_x m \<noteq> 0 \<or> m_y m \<noteq> 0 \<or> m_z m \<noteq> 0)
      \<and> length (m_zeroTierPhysicalEndpoints m) > 0)"

text \<open>
  The loop over \<^verbatim>\<open>_memberIds\<close>; the accumulator is \<^verbatim>\<open>bestDistance\<close>, \<^verbatim>\<open>bestMember\<close> and
  \<^verbatim>\<open>best\<close>.
\<close>

fun closest_member ::
  "('z RuntimeEnvironment_scheme) \<Rightarrow> 64 word \<Rightarrow> Cluster \<Rightarrow> 32 word \<times> 32 word \<times> 32 word
     \<Rightarrow> 16 word list \<Rightarrow> real \<times> 16 word \<times> InetAddress list \<Rightarrow> real \<times> 16 word \<times> InetAddress list" where
  "closest_member RR now c p [] acc = acc"
| "closest_member RR now c p (mid # mids) acc =
     closest_member RR now c p mids
       (case (p, acc) of ((px, py, pz), (bestDistance, bestMember, best)) \<Rightarrow>
          let m = c_members c mid in
          if considered now m then
            let mdist = dist3d RR (m_x m) (m_y m) (m_z m) px py pz in
            if mdist < bestDistance then (mdist, mid, m_zeroTierPhysicalEndpoints m)
            else (bestDistance, bestMember, best)
          else (bestDistance, bestMember, best))"

text \<open>The result is \<open>Some redirectTo\<close> when the function returns true.\<close>

definition findBetterEndpoint ::
  "('z RuntimeEnvironment_scheme) \<Rightarrow> 64 word \<Rightarrow> Address \<Rightarrow> InetAddress \<Rightarrow> bool \<Rightarrow> Cluster
     \<Rightarrow> InetAddress option" where
  "findBetterEndpoint RR now peerAddress peerPhysicalAddress offload c =
     (case addressToLocationFunction RR of
        None \<Rightarrow> None
      | Some locate \<Rightarrow>
         (case locate peerPhysicalAddress of
            None \<Rightarrow> None
          | Some (px, py, pz) \<Rightarrow>
              let currentDistance = dist3d RR (c_x c) (c_y c) (c_z c) px py pz;
                  bestDistance = (if offload then 2147483648 else currentDistance);
                  (bestDistance', bestMember, best) =
                     closest_member RR now c (px, py, pz) (c_memberIds c) (bestDistance, c_id c, [])
              in find (\<lambda>a. ss_family a = ss_family peerPhysicalAddress) best))"

section \<open>Auxiliary definitions for the properties\<close>

text \<open>Raw packets handed to the node's packet sender, as they appear in the trace.\<close>

fun is_PutPacket :: "event \<Rightarrow> bool" where
  "is_PutPacket (PutPacket l r d) = True"
| "is_PutPacket _ = False"

text \<open>
  Every affinity entry is younger than five peer activity timeouts at \<open>now\<close>, measured as
  the code measures it (unsigned 64-bit subtraction).
\<close>

definition swept :: "64 word \<Rightarrow> Cluster \<Rightarrow> bool" where
  "swept now c =
     (\<forall>k v. c_peerAffinities c k = Some v \<longrightarrow> now - pa_ts v < ZT_PEER_ACTIVITY_TIMEOUT * 5)"

text \<open>The bytes that one \<^verbatim>\<open>_send\<close> appends, and a run of \<^verbatim>\<open>_send\<close> calls on one member's queue.\<close>

definition submessage :: "StateMessageType \<times> bytes \<Rightarrow> bytes" where
  "submessage tm = be16 (of_nat (length (snd tm) + 1)) @ [type_code (fst tm)] @ snd tm"

definition enqueue_all ::
  "('z RuntimeEnvironment_scheme) \<Rightarrow> 16 word \<Rightarrow> (StateMessageType \<times> bytes) list \<Rightarrow> Cluster \<Rightarrow> Cluster" where
  "enqueue_all RR mid msgs c = foldl (\<lambda>c' (t, p). Cluster_send RR mid t p c') c msgs"

text \<open>
  The MAC that the handler recomputes for a frame, and the plaintext that its decryption
  gives, whether or not the frame passes the checks.
\<close>

definition frame_mac :: "('z RuntimeEnvironment_scheme) \<Rightarrow> bytes \<Rightarrow> bytes \<Rightarrow> bytes" where
  "frame_mac RR k msg =
     (let (polykey, s20a) = encrypt12 RR (Salsa20 (xor_iv k msg) (take 8 (drop 8 msg)) []) (replicate 32 0)
      in Poly1305_compute RR (drop 24 msg) polykey)"

definition plaintext :: "('z RuntimeEnvironment_scheme) \<Rightarrow> bytes \<Rightarrow> bytes \<Rightarrow> bytes" where
  "plaintext RR k msg =
     (let (polykey, s20a) = encrypt12 RR (Salsa20 (xor_iv k msg) (take 8 (drop 8 msg)) []) (replicate 32 0)
      in fst (decrypt12 RR s20a (drop 24 msg)))"

text \<open>
  The identity carried by a well-formed HAVE\_PEER sub-message whose length field is at
  offset \<open>q\<close>: the type byte is HAVE\_PEER, the identity and the address deserialise, and the
  identity converts to \<^verbatim>\<open>true\<close>.
\<close>

definition have_peer_at :: "('z RuntimeEnvironment_scheme) \<Rightarrow> bytes \<Rightarrow> nat \<Rightarrow> Identity option" where
  "have_peer_at RR dmsg q =
     (if at8 dmsg (q + 2) = Some (type_code STATE_MESSAGE_HAVE_PEER) then
        case Identity_deserialize RR dmsg (q + 2 + 1) of
          None \<Rightarrow> None
        | Some (ident, l1) \<Rightarrow>
           (case InetAddress_deserialize RR dmsg (q + 2 + 1 + l1) of
              (a, None) \<Rightarrow> None
            | (a, Some l2) \<Rightarrow> if Identity_valid RR ident then Some ident else None)
      else None)"

text \<open>
  The distance that \<^verbatim>\<open>findBetterEndpoint\<close> computes for a member, and the distance a member
  has to beat: \<^verbatim>\<open>2147483648.0\<close> when offloading, our own distance otherwise.
\<close>

definition member_distance ::
  "('z RuntimeEnvironment_scheme) \<Rightarrow> Cluster \<Rightarrow> 32 word \<times> 32 word \<times> 32 word \<Rightarrow> 16 word \<Rightarrow> real" where
  "member_distance RR c p mid =
     (case p of (px, py, pz) \<Rightarrow>
        dist3d RR (m_x (c_members c mid)) (m_y (c_members c mid)) (m_z (c_members c mid)) px py pz)"

definition baseline ::
  "('z RuntimeEnvironment_scheme) \<Rightarrow> Cluster \<Rightarrow> 32 word \<times> 32 word \<times> 32 word \<Rightarrow> bool \<Rightarrow> real" where
  "baseline RR c p offload =
     (if offload then 2147483648
      else case p of (px, py, pz) \<Rightarrow> dist3d RR (c_x c) (c_y c) (c_z c) px py pz)"

text \<open>
  The distance between two points as section 4.5 words it, the Euclidean distance, taken
  in exact real arithmetic; to be compared with \<open>dist3d\<close>, which is what the code computes.
\<close>

definition euclidean_distance ::
  "32 word \<times> 32 word \<times> 32 word \<Rightarrow> 32 word \<times> 32 word \<times> 32 word \<Rightarrow> real" where
  "euclidean_distance a b =
     (case (a, b) of ((x1, y1, z1), (x2, y2, z2)) \<Rightarrow>
        sqrt ((real_of_int (sint x2) - real_of_int (sint x1))\<^sup>2
            + (real_of_int (sint y2) - real_of_int (sint y1))\<^sup>2
            + (real_of_int (sint z2) - real_of_int (sint z1))\<^sup>2))"

text \<open>
  The rounding of the \<^verbatim>\<open>double\<close> format (IEEE 754 binary64, round to nearest, ties to even):
  a real \<open>x\<close> with \<open>2^e \<le> |x| < 2^(e+1)\<close> goes to the nearest multiple of \<open>2^(e-52)\<close>, and
  to the one with an even multiplier when two are equally near. The exponent is not bounded
  here; every value that \<^verbatim>\<open>_dist3d\<close> rounds is zero or lies between 1 and \<open>2^66\<close>, far from
  overflow and from the subnormal numbers. \<open>nearest_even q u\<close> is the same rounding of the
  quotient of two integers.
\<close>

definition round_even :: "real \<Rightarrow> int" where
  "round_even y =
     (let f = \<lfloor>y\<rfloor> in
      if y - of_int f < 1 / 2 then f
      else if 1 / 2 < y - of_int f then f + 1
      else if even f then f else f + 1)"

definition binary64_round :: "real \<Rightarrow> real" where
  "binary64_round x =
     (if x = 0 then 0
      else let u = 2 powr of_int (\<lfloor>log 2 \<bar>x\<bar>\<rfloor> - 52)
           in of_int (round_even (x / u)) * u)"

definition nearest_even :: "int \<Rightarrow> int \<Rightarrow> int" where
  "nearest_even q u =
     (if 2 * (q mod u) < u then q div u
      else if u < 2 * (q mod u) then q div u + 1
      else if even (q div u) then q div u else q div u + 1)"

subsection \<open>An environment and some states to run the model on\<close>

text \<open>
  A small environment: a keystream, a MAC and a hash that are easy to compute, an identity
  codec of five bytes (the address), an address codec of one byte, a topology without
  peers, a geolocation that puts every peer at (200, 0, 0), and arithmetic without rounding
  (the numbers below are small integers, which the \<^verbatim>\<open>double\<close> format represents exactly).
\<close>

definition example_RR :: RuntimeEnvironment where
  "example_RR =
     \<lparr>Salsa20_keystream = (\<lambda>k iv h i. hd k + hd iv + of_nat (i + length h)),
      Poly1305_mac = (\<lambda>d k. [of_nat (length d), hd k, last d]),
      SHA512_hash = rev,
      InetAddress_serialize = (\<lambda>a. of_nat (length (rawIpData a)) # rawIpData a @ be16 (port a)),
      InetAddress_deserialize = (\<lambda>b p. (InetAddress_nil, map_option (\<lambda>t. 1) (at8 b p))),
      Identity_serialize = (\<lambda>i. be_bytes 5 (identity_address i)),
      Identity_deserialize = (\<lambda>b p. map_option (\<lambda>f. (Identity (be_word f) [], 5)) (field b p 5)),
      Identity_valid = (\<lambda>i. identity_address i \<noteq> 0),
      getPeerNoCache = (\<lambda>tr a now. False),
      getBestActiveAddresses = (\<lambda>tr a now. (InetAddress_nil, InetAddress_nil)),
      eachPeer = (\<lambda>tr now. []),
      identity_local = 0x1122334455,
      VERB_RENDEZVOUS = 5,
      packet_capacity = 2800,
      version_major = 1, version_minor = 1, version_revision = 0, proto_version = 5,
      addressToLocationFunction = Some (\<lambda>a. Some (200, 0, 0)),
      double_round = (\<lambda>x. x)\<rparr>"

text \<open>Member 1 of a cluster at (0, 0, 0), after members 2 and 3 were added.\<close>

definition example_cluster :: Cluster where
  "example_cluster =
     addMember example_RR 3 (addMember example_RR 2
       (Cluster_new example_RR (replicate 64 0) 1 [] 0 0 0 (\<lambda>n. of_nat n)))"

text \<open>The same with two peers owned by member 3, one last seen at 100 ms, one at 1900 s.\<close>

definition example_affinities :: Cluster where
  "example_affinities = example_cluster\<lparr>c_peerAffinities :=
     [0x0102030405 \<mapsto> \<lparr>pa_ts = 100, pa_mid = 3\<rparr>,
      0x0102030406 \<mapsto> \<lparr>pa_ts = 1900000, pa_mid = 3\<rparr>]\<rparr>"

text \<open>
  Member 3 heard at 1000 ms, located at (100, 0, 0), advertising the given endpoints; the
  same member located at (2147483647, 0, 0), with an environment that puts every peer at
  (-2147483648, 0, 0); and three socket addresses: 203.0.113.5 and 2001:db8::5 for the
  member, 198.51.100.7 for a peer, all on port 9993.
\<close>

definition example_located :: "InetAddress list \<Rightarrow> Cluster" where
  "example_located eps =
     update_member 3 (\<lambda>m. m\<lparr>m_lastReceivedAliveAnnouncement := 1000, m_x := 100,
                             m_zeroTierPhysicalEndpoints := eps\<rparr>) example_cluster"

definition example_far :: Cluster where
  "example_far =
     update_member 3 (\<lambda>m. m\<lparr>m_lastReceivedAliveAnnouncement := 1000, m_x := 0x7fffffff,
                             m_zeroTierPhysicalEndpoints := [InetAddress AF_INET [203, 0, 113, 5] 9993]\<rparr>)
       example_cluster"

definition example_RR_far :: RuntimeEnvironment where
  "example_RR_far = example_RR\<lparr>addressToLocationFunction := Some (\<lambda>a. Some (0x80000000, 0, 0))\<rparr>"

definition example_v4 :: InetAddress where
  "example_v4 = InetAddress AF_INET [203, 0, 113, 5] 9993"

definition example_v6 :: InetAddress where
  "example_v6 = InetAddress AF_INET6 [0x20, 0x01, 0x0d, 0xb8, 0, 0, 0, 0, 0, 0, 0, 0, 0, 0, 0, 5] 9993"

definition example_peer :: InetAddress where
  "example_peer = InetAddress AF_INET [198, 51, 100, 7] 9993"

text \<open>
  A frame for member 1, sealed with its key: the plaintext is the sender's id, the
  recipient's id and one HAVE\_PEER sub-message for the peer 0x0102030405.
\<close>

definition example_plain :: "16 word \<Rightarrow> bytes" where
  "example_plain sender =
     be16 sender @ be16 1 @ submessage (STATE_MESSAGE_HAVE_PEER, [1, 2, 3, 4, 5, 0])"

definition example_frame :: "16 word \<Rightarrow> bytes" where
  "example_frame sender =
     seal example_RR (c_key example_cluster)
       (map of_nat [100..<116] @ replicate 8 0 @ example_plain sender)"

text \<open>
  The body of a MULTICAST\_LIKE sub-message: network 0x1122334455667788, peer 0x0102030405,
  MAC 01:02:03:04:05:06, ADI 0xAABBCCDD.
\<close>

definition example_like :: bytes where
  "example_like = be_bytes 8 (0x1122334455667788 :: 64 word) @ be_bytes 5 (0x0102030405 :: 40 word)
     @ [1, 2, 3, 4, 5, 6] @ be_bytes 4 (0xAABBCCDD :: 32 word)"

text \<open>
  Member 3 of the same cluster, knowing member 1, and the frame that member 1 sends it
  after queueing that sub-message.
\<close>

definition example_receiver :: Cluster where
  "example_receiver =
     addMember example_RR 1 (Cluster_new example_RR (replicate 64 0) 3 [] 0 0 0 (\<lambda>n. of_nat (n + 64)))"

definition example_sent :: bytes where
  "example_sent =
     seal example_RR (m_key (c_members example_cluster 3))
       (fresh_queue 1 3 (map of_nat [16..<32]) (replicate 8 0) @ submessage (STATE_MESSAGE_MULTICAST_LIKE, example_like))"

text \<open>Member 1 owning the peer 0x0102030405 since 500 ms.\<close>

definition example_owned :: Cluster where
  "example_owned = example_cluster\<lparr>c_peerAffinities := [0x0102030405 \<mapsto> \<lparr>pa_ts = 500, pa_mid = 1\<rparr>]\<rparr>"

text \<open>
  Two located members: member 2 at (50, 0, 0) with the IPv6 address only, member 3 at
  (100, 0, 0) with the IPv4 address, both heard at 1000 ms.
\<close>

definition example_two :: Cluster where
  "example_two =
     update_member 2 (\<lambda>m. m\<lparr>m_lastReceivedAliveAnnouncement := 1000, m_x := 50,
                             m_zeroTierPhysicalEndpoints := [example_v6]\<rparr>)
       (example_located [example_v4])"

text \<open>
  The environment with the rounding of the \<^verbatim>\<open>double\<close> format and every peer located at
  (2147483647, 2147483647, 2147483647), and a cluster located at
  (-434327373, -1935004205, -644724334) whose member 3, heard at 1000 ms and advertising
  203.0.113.5, is at (-433067004, -1653134993, -1018734429).
\<close>

definition example_RR64 :: RuntimeEnvironment where
  "example_RR64 = example_RR
     \<lparr>addressToLocationFunction := Some (\<lambda>a. Some (2147483647, 2147483647, 2147483647)),
      double_round := binary64_round\<rparr>"

definition example_close :: Cluster where
  "example_close =
     update_member 3 (\<lambda>m. m\<lparr>m_lastReceivedAliveAnnouncement := 1000,
                             m_x := - 433067004, m_y := - 1653134993, m_z := - 1018734429,
                             m_zeroTierPhysicalEndpoints := [example_v4]\<rparr>)
       (example_cluster\<lparr>c_x := - 434327373, c_y := - 1935004205, c_z := - 644724334\<rparr>)"

section \<open>Properties\<close>

subsection \<open>The example states\<close>

lemma example_cluster_fields:
  "c_id example_cluster = 1"
  "c_memberIds example_cluster = [2, 3]"
  "c_peerAffinities example_cluster = Map.empty"
  "c_trace example_cluster = []"
  "c_x example_cluster = 0" "c_y example_cluster = 0" "c_z example_cluster = 0"
  "c_lastCleanedPeerAffinities example_cluster = 0"
  "c_lastCheckedPeersForAnnounce example_cluster = 0"
  "m_zeroTierPhysicalEndpoints (c_members example_cluster k) = []"
  "m_x (c_members example_cluster k) = 0"
  "m_y (c_members example_cluster k) = 0"
  "m_z (c_members example_cluster k) = 0"
  "m_lastReceivedAliveAnnouncement (c_members example_cluster k) = 0"
  "m_q (c_members example_cluster 2) = fresh_queue 1 2 (map of_nat [0..<16]) (replicate 8 0)"
  "m_q (c_members example_cluster 3) = fresh_queue 1 3 (map of_nat [16..<32]) (replicate 8 0)"
  by (simp_all add: example_cluster_def Cluster_new_def addMember_def getSecureRandom_def Let_def
      ZT_CLUSTER_MAX_MEMBERS_def Member_clear_def Member_init_def fit_def)

lemma example_affinities_fields:
  "c_id example_affinities = 1"
  "c_memberIds example_affinities = [2, 3]"
  "c_trace example_affinities = []"
  "c_lastCleanedPeerAffinities example_affinities = 0"
  "c_lastCheckedPeersForAnnounce example_affinities = 0"
  "m_zeroTierPhysicalEndpoints (c_members example_affinities k) = []"
  "c_peerAffinities example_affinities 0x0102030405 = Some \<lparr>pa_ts = 100, pa_mid = 3\<rparr>"
  "c_peerAffinities example_affinities 0x0102030406 = Some \<lparr>pa_ts = 1900000, pa_mid = 3\<rparr>"
  "m_q (c_members example_affinities k) = m_q (c_members example_cluster k)"
  by (simp_all add: example_affinities_def example_cluster_fields)

subsection \<open>What the framer leaves alone\<close>

lemma trace_flush:
  "c_trace (Cluster_flush RR mid c) =
     c_trace c @ (if length (m_q (c_members c mid)) > 28
                  then [SendFunction mid (seal RR (m_key (c_members c mid)) (m_q (c_members c mid)))]
                  else [])"
  by (simp add: Cluster_flush_def Let_def emit_def getSecureRandom_def split: prod.splits)

lemma endpoints_flush:
  "m_zeroTierPhysicalEndpoints (c_members (Cluster_flush RR mid c) k) =
     m_zeroTierPhysicalEndpoints (c_members c k)"
  by (simp add: Cluster_flush_def Let_def emit_def getSecureRandom_def split: prod.splits)

lemma affinities_flush: "c_peerAffinities (Cluster_flush RR mid c) = c_peerAffinities c"
  by (simp add: Cluster_flush_def Let_def emit_def getSecureRandom_def split: prod.splits)

lemma id_flush: "c_id (Cluster_flush RR mid c) = c_id c"
  by (simp add: Cluster_flush_def Let_def emit_def getSecureRandom_def split: prod.splits)

lemma memberIds_flush: "c_memberIds (Cluster_flush RR mid c) = c_memberIds c"
  by (simp add: Cluster_flush_def Let_def emit_def getSecureRandom_def split: prod.splits)

lemma putPacket_send:
  "filter is_PutPacket (c_trace (Cluster_send RR mid t msg c)) = filter is_PutPacket (c_trace c)"
  by (simp add: Cluster_send_def Let_def trace_flush)

lemma endpoints_send:
  "m_zeroTierPhysicalEndpoints (c_members (Cluster_send RR mid t msg c) k) =
     m_zeroTierPhysicalEndpoints (c_members c k)"
  by (simp add: Cluster_send_def Let_def endpoints_flush)

lemma affinities_send: "c_peerAffinities (Cluster_send RR mid t msg c) = c_peerAffinities c"
  by (simp add: Cluster_send_def Let_def affinities_flush)

lemma id_send: "c_id (Cluster_send RR mid t msg c) = c_id c"
  by (simp add: Cluster_send_def Let_def id_flush)

lemma memberIds_send: "c_memberIds (Cluster_send RR mid t msg c) = c_memberIds c"
  by (simp add: Cluster_send_def Let_def memberIds_flush)

lemma foldl_send_keeps:
  "c_peerAffinities (foldl (\<lambda>c' mid. Cluster_send RR mid t buf c') c mids) = c_peerAffinities c
   \<and> c_id (foldl (\<lambda>c' mid. Cluster_send RR mid t buf c') c mids) = c_id c
   \<and> c_memberIds (foldl (\<lambda>c' mid. Cluster_send RR mid t buf c') c mids) = c_memberIds c"
  by (induction mids arbitrary: c) (simp_all add: affinities_send id_send memberIds_send)

lemma affinities_broadcast: "c_peerAffinities (broadcast RR t buf c) = c_peerAffinities c"
  by (simp add: broadcast_def foldl_send_keeps)

lemma id_broadcast: "c_id (broadcast RR t buf c) = c_id c"
  by (simp add: broadcast_def foldl_send_keeps)

lemma memberIds_broadcast: "c_memberIds (broadcast RR t buf c) = c_memberIds c"
  by (simp add: broadcast_def foldl_send_keeps)

text \<open>A queue never outgrows its buffer.\<close>

lemma queue_flush:
  "m_q (c_members (Cluster_flush RR mid c) k) =
     (if k = mid \<and> 28 < length (m_q (c_members c mid))
      then fresh_queue (c_id c) mid (map (c_entropy c) [c_drawn c..<c_drawn c + 16])
             (take 8 (drop 16 (seal RR (m_key (c_members c mid)) (m_q (c_members c mid)))))
      else m_q (c_members c k))"
  by (simp add: Cluster_flush_def Let_def emit_def getSecureRandom_def split: prod.splits)

lemma length_fresh_queue: "length (fresh_queue a b iv room) = length iv + length room + 4"
  by (simp add: fresh_queue_def be16_def)

lemma Cluster_send_capacity:
  assumes "length (m_q (c_members c k)) \<le> ZT_CLUSTER_MAX_MESSAGE_LENGTH"
  shows "length (m_q (c_members (Cluster_send RR mid t msg c) k)) \<le> ZT_CLUSTER_MAX_MESSAGE_LENGTH"
  using assms
  by (auto simp: Cluster_send_def Let_def queue_flush length_fresh_queue be16_def
      ZT_CLUSTER_MAX_MESSAGE_LENGTH_def)

subsection \<open>What \<^verbatim>\<open>_send\<close> does to the queues\<close>

lemma key_flush: "m_key (c_members (Cluster_flush RR mid c) k) = m_key (c_members c k)"
  by (simp add: Cluster_flush_def Let_def emit_def getSecureRandom_def split: prod.splits)

lemma key_send: "m_key (c_members (Cluster_send RR mid t msg c) k) = m_key (c_members c k)"
  by (simp add: Cluster_send_def Let_def key_flush)

lemma queue_send_other:
  "k \<noteq> mid \<Longrightarrow> m_q (c_members (Cluster_send RR mid t msg c) k) = m_q (c_members c k)"
  by (simp add: Cluster_send_def Let_def queue_flush)

lemma queue_send_fits:
  assumes "length msg + 3 \<le> ZT_CLUSTER_MAX_MESSAGE_LENGTH - 28"
    and "length (m_q (c_members c mid)) + length msg + 3 \<le> ZT_CLUSTER_MAX_MESSAGE_LENGTH"
  shows "m_q (c_members (Cluster_send RR mid t msg c) mid) = m_q (c_members c mid) @ submessage (t, msg)"
  using assms by (simp add: Cluster_send_def Let_def submessage_def)

lemma queue_send_flush:
  assumes "length msg + 3 \<le> ZT_CLUSTER_MAX_MESSAGE_LENGTH - 28"
    and "ZT_CLUSTER_MAX_MESSAGE_LENGTH < length (m_q (c_members c mid)) + length msg + 3"
  shows "m_q (c_members (Cluster_send RR mid t msg c) mid) =
           fresh_queue (c_id c) mid (map (c_entropy c) [c_drawn c..<c_drawn c + 16])
             (take 8 (drop 16 (seal RR (m_key (c_members c mid)) (m_q (c_members c mid)))))
           @ submessage (t, msg)"
proof -
  have "28 < length (m_q (c_members c mid))"
    using assms by simp
  then show ?thesis
    using assms by (simp add: Cluster_send_def Let_def submessage_def queue_flush)
qed

lemma trace_send_fits:
  assumes "length (m_q (c_members c mid)) + length msg + 3 \<le> ZT_CLUSTER_MAX_MESSAGE_LENGTH"
  shows "c_trace (Cluster_send RR mid t msg c) = c_trace c"
  using assms by (simp add: Cluster_send_def Let_def)

lemma queue_foldl_send_other:
  "k \<notin> set mids \<Longrightarrow>
     m_q (c_members (foldl (\<lambda>c' mid. Cluster_send RR mid t buf c') c mids) k) = m_q (c_members c k)"
  by (induction mids arbitrary: c) (simp_all add: queue_send_other)

lemma queue_foldl_send:
  assumes "distinct mids" and "k \<in> set mids"
    and "length buf + 3 \<le> ZT_CLUSTER_MAX_MESSAGE_LENGTH - 28"
  shows "(length (m_q (c_members c k)) + length buf + 3 \<le> ZT_CLUSTER_MAX_MESSAGE_LENGTH \<longrightarrow>
            m_q (c_members (foldl (\<lambda>c' mid. Cluster_send RR mid t buf c') c mids) k)
              = m_q (c_members c k) @ submessage (t, buf))
       \<and> (ZT_CLUSTER_MAX_MESSAGE_LENGTH < length (m_q (c_members c k)) + length buf + 3 \<longrightarrow>
            (\<exists>iv. length iv = 16 \<and>
               m_q (c_members (foldl (\<lambda>c' mid. Cluster_send RR mid t buf c') c mids) k)
                 = fresh_queue (c_id c) k iv
                     (take 8 (drop 16 (seal RR (m_key (c_members c k)) (m_q (c_members c k)))))
                   @ submessage (t, buf)))"
  using assms(1,2)
proof (induction mids arbitrary: c)
  case Nil
  then show ?case by simp
next
  case (Cons a mids)
  show ?case
  proof (cases "a = k")
    case True
    then have "k \<notin> set mids" using Cons.prems by simp
    then have "m_q (c_members (foldl (\<lambda>c' mid. Cluster_send RR mid t buf c') c (a # mids)) k)
                 = m_q (c_members (Cluster_send RR k t buf c) k)"
      using True by (simp add: queue_foldl_send_other)
    moreover have "length (map (c_entropy c) [c_drawn c..<c_drawn c + 16]) = 16" by simp
    ultimately show ?thesis
      using queue_send_fits[OF assms(3), of c k RR t] queue_send_flush[OF assms(3), of c k RR t]
      by (metis (no_types, lifting))
  next
    case False
    then have "distinct mids" "k \<in> set mids" using Cons.prems by auto
    from Cons.IH[OF this, of "Cluster_send RR a t buf c"] False
    show ?thesis
      by (simp add: queue_send_other key_send id_send)
  qed
qed

lemma trace_foldl_send_fits:
  assumes "distinct mids"
    and "\<forall>k \<in> set mids. length (m_q (c_members c k)) + length buf + 3 \<le> ZT_CLUSTER_MAX_MESSAGE_LENGTH"
  shows "c_trace (foldl (\<lambda>c' mid. Cluster_send RR mid t buf c') c mids) = c_trace c"
  using assms
proof (induction mids arbitrary: c)
  case Nil
  then show ?case by simp
next
  case (Cons a mids)
  have "\<forall>k \<in> set mids. length (m_q (c_members (Cluster_send RR a t buf c) k)) + length buf + 3
          \<le> ZT_CLUSTER_MAX_MESSAGE_LENGTH"
  proof
    fix k assume k: "k \<in> set mids"
    then have "k \<noteq> a" using Cons.prems(1) by auto
    then show "length (m_q (c_members (Cluster_send RR a t buf c) k)) + length buf + 3
                 \<le> ZT_CLUSTER_MAX_MESSAGE_LENGTH"
      using Cons.prems(2) k by (simp add: queue_send_other)
  qed
  then have "c_trace (foldl (\<lambda>c' mid. Cluster_send RR mid t buf c') (Cluster_send RR a t buf c) mids)
               = c_trace (Cluster_send RR a t buf c)"
    using Cons.prems by (intro Cons.IH) simp_all
  then show ?case
    using Cons.prems by (simp add: trace_send_fits)
qed

lemma distinct_addMember: "distinct (c_memberIds c) \<Longrightarrow> distinct (c_memberIds (addMember RR mid c))"
  by (simp add: addMember_def Let_def getSecureRandom_def split: prod.splits)

lemma distinct_removeMember: "distinct (c_memberIds c) \<Longrightarrow> distinct (c_memberIds (removeMember mid c))"
  by (simp add: removeMember_def)

subsection \<open>Relaying through the cluster\<close>

text \<open>
  C5. \<^verbatim>\<open>sendViaCluster\<close> returns false whenever the payload is longer than 16384 bytes, or
  the affinity map has no entry for the destination, or the entry's owner is the local
  member, or the entry is stale (\<open>now - ts\<close> is at least \<^verbatim>\<open>ZT_PEER_ACTIVITY_TIMEOUT\<close>), and
  true otherwise. When it returns false the cluster is unchanged: no frame was queued or
  sent and no raw packet was handed to the node.
\<close>

theorem sendViaCluster_gating:
  "fst (sendViaCluster RR now fromPeer toPeer data unite c) =
     (\<not> (16384 < length data \<or>
         (case c_peerAffinities c toPeer of
            None \<Rightarrow> True
          | Some pa \<Rightarrow> pa_mid pa = c_id c \<or> ZT_PEER_ACTIVITY_TIMEOUT \<le> now - pa_ts pa)))
   \<and> (\<not> fst (sendViaCluster RR now fromPeer toPeer data unite c) \<longrightarrow>
        snd (sendViaCluster RR now fromPeer toPeer data unite c) = c)"
  by (auto simp: sendViaCluster_def Let_def split: option.splits)

theorem sendViaCluster_gating_witness:
  "\<not> fst (sendViaCluster example_RR 2000 1 2 [] True example_cluster)
   \<and> snd (sendViaCluster example_RR 2000 1 2 [] True example_cluster) = example_cluster
   \<and> \<not> fst (sendViaCluster example_RR 2000000 1 0x0102030405 [] True example_affinities)
   \<and> fst (sendViaCluster example_RR 2000000 1 0x0102030406 [] True example_affinities)"
  using sendViaCluster_gating [of example_RR 2000 1 2 "[]" True example_cluster]
    sendViaCluster_gating [of example_RR 2000000 1 "0x0102030405" "[]" True example_affinities]
    sendViaCluster_gating [of example_RR 2000000 1 "0x0102030406" "[]" True example_affinities]
  by (simp add: example_cluster_fields example_affinities_fields ZT_PEER_ACTIVITY_TIMEOUT_def)

text \<open>
  C10. When the lookup succeeds (payload within bounds, entry present, owner not the local
  member, entry fresh) but the owner has advertised no physical endpoint,
  \<^verbatim>\<open>sendViaCluster\<close> returns true and hands no raw packet to the node: the trace holds the
  \<^verbatim>\<open>putPacket\<close> calls it held before, and the payload is not relayed.
\<close>

theorem sendViaCluster_no_endpoint:
  assumes "length data \<le> 16384"
    and "c_peerAffinities c toPeer = Some pa"
    and "pa_mid pa \<noteq> c_id c"
    and "now - pa_ts pa < ZT_PEER_ACTIVITY_TIMEOUT"
    and "m_zeroTierPhysicalEndpoints (c_members c (pa_mid pa)) = []"
  shows "fst (sendViaCluster RR now fromPeer toPeer data unite c) \<and>
         filter is_PutPacket (c_trace (snd (sendViaCluster RR now fromPeer toPeer data unite c)))
           = filter is_PutPacket (c_trace c)"
  using assms by (simp add: sendViaCluster_def Let_def endpoints_send putPacket_send)

theorem sendViaCluster_no_endpoint_witness:
  "fst (sendViaCluster example_RR 2000000 1 0x0102030406 [1, 2, 3] True example_affinities) \<and>
   filter is_PutPacket
     (c_trace (snd (sendViaCluster example_RR 2000000 1 0x0102030406 [1, 2, 3] True example_affinities)))
     = []"
proof -
  have "pa_mid \<lparr>pa_ts = 1900000, pa_mid = 3\<rparr> \<noteq> c_id example_affinities"
    by (simp add: example_affinities_fields)
  moreover have "2000000 - pa_ts \<lparr>pa_ts = 1900000, pa_mid = 3\<rparr> < ZT_PEER_ACTIVITY_TIMEOUT"
    by (simp add: ZT_PEER_ACTIVITY_TIMEOUT_def)
  moreover have "m_zeroTierPhysicalEndpoints
      (c_members example_affinities (pa_mid \<lparr>pa_ts = 1900000, pa_mid = 3\<rparr>)) = []"
    by (simp add: example_affinities_fields)
  ultimately show ?thesis
    using sendViaCluster_no_endpoint [of "[1, 2, 3]" example_affinities "0x0102030406"
        "\<lparr>pa_ts = 1900000, pa_mid = 3\<rparr>" 2000000 example_RR 1 True]
    by (simp add: example_affinities_fields)
qed


subsection \<open>Sealing and unsealing\<close>

lemma length_encrypt12: "length (fst (encrypt12 RR s inp)) = length inp"
  by (cases s) (simp add: encrypt12_def)

lemma encrypt12_involution: "fst (encrypt12 RR s (fst (encrypt12 RR s inp))) = inp"
  by (cases s) (auto simp: encrypt12_def xor.assoc intro!: nth_equalityI)

lemma length_Poly1305_compute: "length (Poly1305_compute RR d k) = 16"
  by (simp add: Poly1305_compute_def fit_def)


lemma unseal_seal:
  assumes "24 \<le> length q" and "length q \<le> ZT_CLUSTER_MAX_MESSAGE_LENGTH"
  shows "unseal RR k (seal RR k q) = Some (drop 24 q)"
proof -
  obtain polykey s20a where pk:
    "encrypt12 RR (Salsa20 (xor_iv k q) (take 8 (drop 8 q)) []) (replicate 32 0) = (polykey, s20a)"
    by (cases "encrypt12 RR (Salsa20 (xor_iv k q) (take 8 (drop 8 q)) []) (replicate 32 0)")
  define ct where "ct = fst (encrypt12 RR s20a (drop 24 q))"
  define mac where "mac = Poly1305_compute RR ct polykey"
  have lct: "length ct = length q - 24"
    by (simp add: ct_def length_encrypt12)
  have lmac: "length mac = 16"
    by (simp add: mac_def length_Poly1305_compute)
  have F: "seal RR k q = take 16 q @ take 8 mac @ ct"
    using assms(1) by (simp add: seal_def Let_def pk ct_def mac_def split: prod.splits)
  have len: "length (seal RR k q) = length q"
    using assms(1) lct lmac by (simp add: F)
  have t8: "take 8 (seal RR k q) = take 8 q"
    using assms(1) by (simp add: F)
  have key: "xor_iv k (seal RR k q) = xor_iv k q"
    by (simp add: xor_iv_def t8)
  have iv: "take 8 (drop 8 (seal RR k q)) = take 8 (drop 8 q)"
    using assms(1) by (simp add: F drop_take)
  have body: "drop 24 (seal RR k q) = ct"
    using assms(1) lmac by (simp add: F)
  have tag: "take 8 (drop 16 (seal RR k q)) = take 8 mac"
    using assms(1) lmac by (simp add: F)
  have dec: "fst (decrypt12 RR s20a ct) = drop 24 q"
    by (simp add: decrypt12_def ct_def encrypt12_involution)
  show ?thesis
    using assms by (simp add: unseal_def Let_def len key iv pk body secureEq_def tag dec flip: mac_def)
qed

lemma unseal_cases:
  "unseal RR k msg =
     (if length msg < 24 \<or> ZT_CLUSTER_MAX_MESSAGE_LENGTH < length msg then None
      else if take 8 (frame_mac RR k msg) \<noteq> take 8 (drop 16 msg) then None
      else Some (plaintext RR k msg))"
  by (simp add: unseal_def frame_mac_def plaintext_def secureEq_def Let_def split: prod.splits)

lemma plaintext_seal:
  assumes "24 \<le> length q" and "length q \<le> ZT_CLUSTER_MAX_MESSAGE_LENGTH"
  shows "plaintext RR k (seal RR k q) = drop 24 q"
  using unseal_seal[OF assms, of RR k] by (simp add: unseal_cases split: if_splits)

lemma length_submessage: "length (submessage (t, p)) = length p + 3"
  by (simp add: submessage_def be16_def)

lemma send_fits:
  assumes "28 \<le> length (m_q (c_members c mid))"
    and "length (m_q (c_members c mid)) + length p + 3 \<le> ZT_CLUSTER_MAX_MESSAGE_LENGTH"
  shows "Cluster_send RR mid t p c = update_member mid (\<lambda>m. m\<lparr>m_q := m_q m @ submessage (t, p)\<rparr>) c"
  using assms by (simp add: Cluster_send_def Let_def update_member_def submessage_def)

lemma update_member_twice:
  "update_member mid (\<lambda>m. m\<lparr>m_q := m_q m @ ys\<rparr>) (update_member mid (\<lambda>m. m\<lparr>m_q := m_q m @ xs\<rparr>) c)
     = update_member mid (\<lambda>m. m\<lparr>m_q := m_q m @ xs @ ys\<rparr>) c"
  by (simp add: update_member_def)

lemma enqueue_all_fits:
  assumes "28 \<le> length (m_q (c_members c mid))"
    and "length (m_q (c_members c mid)) + sum_list (map (\<lambda>(t, p). length p + 3) msgs)
           \<le> ZT_CLUSTER_MAX_MESSAGE_LENGTH"
  shows "enqueue_all RR mid msgs c =
           update_member mid (\<lambda>m. m\<lparr>m_q := m_q m @ concat (map submessage msgs)\<rparr>) c"
  using assms
proof (induction msgs arbitrary: c)
  case Nil
  then show ?case by (simp add: enqueue_all_def update_member_def)
next
  case (Cons tm msgs)
  obtain t p where tm: "tm = (t, p)" by (cases tm)
  let ?c1 = "update_member mid (\<lambda>m. m\<lparr>m_q := m_q m @ submessage (t, p)\<rparr>) c"
  have one: "Cluster_send RR mid t p c = ?c1"
    using Cons.prems tm by (intro send_fits) simp_all
  have "enqueue_all RR mid msgs ?c1 =
          update_member mid (\<lambda>m. m\<lparr>m_q := m_q m @ concat (map submessage msgs)\<rparr>) ?c1"
    using Cons.prems tm by (intro Cons.IH) (simp_all add: length_submessage update_member_def)
  then show ?case
    using one tm by (simp add: enqueue_all_def update_member_twice)
qed

lemma length_example_like: "length example_like = 23"
  by (simp add: example_like_def be_bytes_def)

text \<open>
  C1. Framer round trip. Let the queue of a member hold a 16-byte IV, the eight bytes kept
  for the MAC (whatever they hold), the sender's and the recipient's id and a non-empty body of at most
  \<^verbatim>\<open>ZT_CLUSTER_MAX_MESSAGE_LENGTH - 28\<close> bytes. Then \<^verbatim>\<open>_flush\<close> hands exactly one frame to the
  send function, and the first block of \<^verbatim>\<open>handleIncomingStateMessage\<close>, run with the same
  key (any key; in the code an array of 32 bytes), accepts that frame, so the MAC check
  succeeds, and decrypts it to the two ids followed by the body.
\<close>

theorem framer_round_trip:
  assumes "m_q (c_members c memberId) = fresh_queue fromId memberId iv room @ body"
    and "m_key (c_members c memberId) = k"
    and "length iv = 16 \<and> length room = 8"
    and "body \<noteq> []"
    and "length body \<le> ZT_CLUSTER_MAX_MESSAGE_LENGTH - 28"
  shows "c_trace (Cluster_flush RR memberId c) =
           c_trace c @ [SendFunction memberId (seal RR k (fresh_queue fromId memberId iv room @ body))]
       \<and> unseal RR k (seal RR k (fresh_queue fromId memberId iv room @ body))
           = Some (be16 fromId @ be16 memberId @ body)"
proof -
  let ?q = "fresh_queue fromId memberId iv room @ body"
  have len: "length ?q = 28 + length body"
    using assms(3) by (simp add: fresh_queue_def be16_def)
  have "28 < length ?q" using assms(4) len by simp
  then have tr: "c_trace (Cluster_flush RR memberId c) = c_trace c @ [SendFunction memberId (seal RR k ?q)]"
    using assms(1,2) by (simp add: trace_flush)
  have "24 \<le> length ?q" "length ?q \<le> ZT_CLUSTER_MAX_MESSAGE_LENGTH"
    using len assms(5) by (simp_all add: ZT_CLUSTER_MAX_MESSAGE_LENGTH_def)
  then have "unseal RR k (seal RR k ?q) = Some (drop 24 ?q)"
    by (rule unseal_seal)
  moreover have "drop 24 ?q = be16 fromId @ be16 memberId @ body"
    using assms(3) by (simp add: fresh_queue_def)
  ultimately show ?thesis using tr by simp
qed

theorem framer_round_trip_witness:
  "c_trace (Cluster_flush example_RR 3
      (Cluster_send example_RR 3 STATE_MESSAGE_MULTICAST_LIKE example_like example_cluster))
     = [SendFunction 3 (seal example_RR (m_key (c_members example_cluster 3))
          (fresh_queue 1 3 (map of_nat [16..<32]) (replicate 8 0) @ submessage (STATE_MESSAGE_MULTICAST_LIKE, example_like)))]
   \<and> unseal example_RR (m_key (c_members example_cluster 3))
        (seal example_RR (m_key (c_members example_cluster 3))
          (fresh_queue 1 3 (map of_nat [16..<32]) (replicate 8 0) @ submessage (STATE_MESSAGE_MULTICAST_LIKE, example_like)))
       = Some (be16 1 @ be16 3 @ submessage (STATE_MESSAGE_MULTICAST_LIKE, example_like))"
proof -
  let ?c = "Cluster_send example_RR 3 STATE_MESSAGE_MULTICAST_LIKE example_like example_cluster"
  let ?body = "submessage (STATE_MESSAGE_MULTICAST_LIKE, example_like)"
  have sent: "?c = update_member 3 (\<lambda>m. m\<lparr>m_q := m_q m @ ?body\<rparr>) example_cluster"
    by (rule send_fits)
       (simp_all add: example_cluster_fields fresh_queue_def be16_def length_example_like
          ZT_CLUSTER_MAX_MESSAGE_LENGTH_def)
  have q: "m_q (c_members ?c 3) = fresh_queue 1 3 (map of_nat [16..<32]) (replicate 8 0) @ ?body"
    by (simp add: sent update_member_def example_cluster_fields)
  have k: "m_key (c_members ?c 3) = m_key (c_members example_cluster 3)"
    by (simp add: sent update_member_def)
  have tr: "c_trace ?c = []"
    by (simp add: sent update_member_def example_cluster_fields)
  have iv: "length (map of_nat [16..<32] :: bytes) = 16 \<and> length (replicate 8 0 :: bytes) = 8" by simp
  have ne: "?body \<noteq> []" by (simp add: submessage_def)
  have le: "length ?body \<le> ZT_CLUSTER_MAX_MESSAGE_LENGTH - 28"
    by (simp add: length_submessage length_example_like ZT_CLUSTER_MAX_MESSAGE_LENGTH_def)
  show ?thesis
    using framer_round_trip [OF q k iv ne le, of example_RR] tr by simp
qed

text \<open>
  C6. Framer batching. Starting from a fresh queue (whatever the eight bytes kept for the
  MAC hold), a non-empty sequence of \<^verbatim>\<open>_send\<close> calls
  whose sub-messages (payload plus three bytes each) fit with the 28-byte header in
  \<^verbatim>\<open>ZT_CLUSTER_MAX_MESSAGE_LENGTH\<close> bytes sends nothing and leaves in the queue the header
  followed by the sub-messages, length-prefixed, in the order of the calls; the flush that
  follows sends exactly one frame, the seal of that queue (which unseals to the two ids
  and these sub-messages, by the round trip above).
\<close>

theorem framer_batching:
  assumes "m_q (c_members c mid) = fresh_queue (c_id c) mid iv room"
    and "length iv = 16 \<and> length room = 8"
    and "msgs \<noteq> []"
    and "28 + sum_list (map (\<lambda>(t, p). length p + 3) msgs) \<le> ZT_CLUSTER_MAX_MESSAGE_LENGTH"
  shows "c_trace (enqueue_all RR mid msgs c) = c_trace c
       \<and> m_q (c_members (enqueue_all RR mid msgs c) mid)
           = fresh_queue (c_id c) mid iv room @ concat (map submessage msgs)
       \<and> c_trace (Cluster_flush RR mid (enqueue_all RR mid msgs c)) =
           c_trace c @ [SendFunction mid (seal RR (m_key (c_members c mid))
                          (fresh_queue (c_id c) mid iv room @ concat (map submessage msgs)))]"
proof -
  let ?body = "concat (map submessage msgs)"
  let ?q = "fresh_queue (c_id c) mid iv room @ ?body"
  let ?c' = "enqueue_all RR mid msgs c"
  have l0: "length (m_q (c_members c mid)) = 28"
    using assms(1,2) by (simp add: fresh_queue_def be16_def)
  have eq: "?c' = update_member mid (\<lambda>m. m\<lparr>m_q := m_q m @ ?body\<rparr>) c"
    using assms(4) l0 by (intro enqueue_all_fits) simp_all
  have tr: "c_trace ?c' = c_trace c"
    by (simp add: eq update_member_def)
  have q: "m_q (c_members ?c' mid) = ?q"
    using assms(1) by (simp add: eq update_member_def)
  have k: "m_key (c_members ?c' mid) = m_key (c_members c mid)"
    by (simp add: eq update_member_def)
  obtain t p rest where "msgs = (t, p) # rest"
    using assms(3) by (cases msgs) auto
  then have "0 < length ?body"
    by (simp add: length_submessage)
  then have ne: "28 < length ?q"
    using assms(2) by (simp add: fresh_queue_def be16_def)
  have fl: "c_trace (Cluster_flush RR mid ?c') =
              c_trace c @ [SendFunction mid (seal RR (m_key (c_members c mid)) ?q)]"
    using ne by (simp add: trace_flush q k tr)
  show ?thesis using tr q fl by simp
qed

theorem framer_batching_witness:
  "c_trace (enqueue_all example_RR 3
      [(STATE_MESSAGE_MULTICAST_LIKE, example_like), (STATE_MESSAGE_COM, [9])] example_cluster) = []
   \<and> c_trace (Cluster_flush example_RR 3 (enqueue_all example_RR 3
      [(STATE_MESSAGE_MULTICAST_LIKE, example_like), (STATE_MESSAGE_COM, [9])] example_cluster))
     = [SendFunction 3 (seal example_RR (m_key (c_members example_cluster 3))
          (fresh_queue 1 3 (map of_nat [16..<32]) (replicate 8 0)
             @ submessage (STATE_MESSAGE_MULTICAST_LIKE, example_like) @ submessage (STATE_MESSAGE_COM, [9])))]"
proof -
  have q: "m_q (c_members example_cluster 3) =
             fresh_queue (c_id example_cluster) 3 (map of_nat [16..<32]) (replicate 8 0)"
    by (simp add: example_cluster_fields)
  have iv: "length (map of_nat [16..<32] :: bytes) = 16 \<and> length (replicate 8 0 :: bytes) = 8" by simp
  have ne: "[(STATE_MESSAGE_MULTICAST_LIKE, example_like), (STATE_MESSAGE_COM, [9])] \<noteq> []" by simp
  have le: "28 + sum_list (map (\<lambda>(t, p). length p + 3)
               [(STATE_MESSAGE_MULTICAST_LIKE, example_like), (STATE_MESSAGE_COM, [9])])
             \<le> ZT_CLUSTER_MAX_MESSAGE_LENGTH"
    by (simp add: length_example_like ZT_CLUSTER_MAX_MESSAGE_LENGTH_def)
  show ?thesis
    using framer_batching [OF q iv ne le, of example_RR]
    by (simp add: example_cluster_fields)
qed

subsection \<open>Incoming frames\<close>

text \<open>
  A run through both ends: the frame that member 1 flushes for member 3 with one
  MULTICAST\_LIKE sub-message makes member 3 call the multicast table once, with the fields
  that were sent.
\<close>

lemma example_receiver_fields:
  "c_id example_receiver = 3"
  "c_memberIds example_receiver = [1]"
  "c_trace example_receiver = []"
  "c_key example_receiver = link_key example_RR (replicate 64 0) 3"
  by (simp_all add: example_receiver_def Cluster_new_def addMember_def getSecureRandom_def Let_def
      ZT_CLUSTER_MAX_MEMBERS_def)

lemma example_key: "m_key (c_members example_cluster 3) = link_key example_RR (replicate 64 0) 3"
  by (simp add: example_cluster_def Cluster_new_def addMember_def getSecureRandom_def Let_def
      ZT_CLUSTER_MAX_MEMBERS_def Member_clear_def fit_def link_key_def)

lemma be_word_example:
  "be_word [0x11, 0x22, 0x33, 0x44, 0x55, 0x66, 0x77, 0x88] = (0x1122334455667788 :: 64 word)"
  "be_word [1, 2, 3, 4, 5] = (0x0102030405 :: 40 word)"
  "be_word [1, 2, 3, 4, 5, 6] = (0x010203040506 :: 48 word)"
  "be_word [0xAA, 0xBB, 0xCC, 0xDD] = (0xAABBCCDD :: 32 word)"
  by (simp_all add: be_word_def)

lemma example_like_bytes:
  "example_like = [0x11, 0x22, 0x33, 0x44, 0x55, 0x66, 0x77, 0x88, 1, 2, 3, 4, 5, 1, 2, 3, 4, 5, 6,
     0xAA, 0xBB, 0xCC, 0xDD]"
  by (simp add: example_like_def be_bytes_def upt_rec drop_bit_eq_div)

lemma example_sent_unseal:
  "unseal example_RR (c_key example_receiver) example_sent
     = Some (be16 1 @ be16 3 @ submessage (STATE_MESSAGE_MULTICAST_LIKE, example_like))"
proof -
  have "length (fresh_queue 1 3 (map of_nat [16..<32]) (replicate 8 0) @ submessage (STATE_MESSAGE_MULTICAST_LIKE, example_like)) = 54"
    by (simp add: fresh_queue_def be16_def length_submessage length_example_like)
  then have "unseal example_RR (link_key example_RR (replicate 64 0) 3) example_sent
     = Some (drop 24 (fresh_queue 1 3 (map of_nat [16..<32]) (replicate 8 0) @ submessage (STATE_MESSAGE_MULTICAST_LIKE, example_like)))"
    unfolding example_sent_def example_key
    by (intro unseal_seal) (simp_all add: ZT_CLUSTER_MAX_MESSAGE_LENGTH_def)
  then show ?thesis
    by (simp add: example_receiver_fields fresh_queue_def)
qed

lemma example_sent_plain:
  "be16 1 @ be16 3 @ submessage (STATE_MESSAGE_MULTICAST_LIKE, example_like) =
     [0, 1, 0, 3, 0, 24, 3, 0x11, 0x22, 0x33, 0x44, 0x55, 0x66, 0x77, 0x88, 1, 2, 3, 4, 5, 1, 2, 3, 4, 5, 6,
      0xAA, 0xBB, 0xCC, 0xDD]"
  by (simp add: example_like_bytes submessage_def be16_def)

lemma scenario_multicast_like:
  "c_trace (handleIncomingStateMessage example_RR 5000 example_sent example_receiver)
     = [MulticasterAdd 5000 0x1122334455667788 0x010203040506 0xAABBCCDD 0x0102030405]"
  unfolding handleIncomingStateMessage_def example_sent_unseal example_sent_plain
  apply (simp add: example_receiver_fields at16_def field_def be_word_def)
  apply (subst parse_loop.simps)
  apply (simp add: at16_def field_def be_word_def Let_def)
  apply (subst parse_loop.simps)
  apply (simp add: dispatch_def at8_def handle_MULTICAST_LIKE_def at64_def at32_def field_def
      be_word_example emit_def example_receiver_fields)
  done

lemma length_example_plain: "length (example_plain sender) = 13"
  by (simp add: example_plain_def be16_def submessage_def)

lemma example_frame_plaintext:
  "plaintext example_RR (c_key example_cluster) (example_frame sender) = example_plain sender"
  unfolding example_frame_def
  by (subst plaintext_seal) (simp_all add: length_example_plain ZT_CLUSTER_MAX_MESSAGE_LENGTH_def)

lemma example_frame_unseal:
  "unseal example_RR (c_key example_cluster) (example_frame sender) = Some (example_plain sender)"
  unfolding example_frame_def
  by (subst unseal_seal) (simp_all add: length_example_plain ZT_CLUSTER_MAX_MESSAGE_LENGTH_def)

lemma example_plain_ids:
  "at16 (example_plain 7) 0 = Some 7"
  "at16 (example_plain 3) 0 = Some 3"
  "at16 (example_plain sender) 2 = Some 1"
  by (simp_all add: example_plain_def at16_def field_def be16_def be_word_def)

text \<open>
  C2. Frame-level rejection. \<^verbatim>\<open>handleIncomingStateMessage\<close> leaves the cluster as it was (no
  field changes, nothing is added to the trace, so no sub-message is dispatched) whenever
  the frame is shorter than 24 or longer than 16384 bytes, or the first eight bytes of the
  recomputed MAC differ from bytes 16 to 24 of the frame, or the decrypted sender id is the
  local id, or the decrypted recipient id is not the local id, or the decrypted sender id
  is not in the member id set; the last three also when the frame is correctly sealed.
\<close>

theorem frame_level_rejection:
  assumes "length msg < 24 \<or> 16384 < length msg
         \<or> take 8 (frame_mac RR (c_key c) msg) \<noteq> take 8 (drop 16 msg)
         \<or> at16 (plaintext RR (c_key c) msg) 0 = Some (c_id c)
         \<or> at16 (plaintext RR (c_key c) msg) 2 \<noteq> Some (c_id c)
         \<or> at16 (plaintext RR (c_key c) msg) 0 \<notin> Some ` set (c_memberIds c)"
  shows "handleIncomingStateMessage RR now msg c = c"
  using assms
  by (auto simp: handleIncomingStateMessage_def unseal_cases ZT_CLUSTER_MAX_MESSAGE_LENGTH_def
      split: option.splits)

theorem frame_level_rejection_witness:
  "handleIncomingStateMessage example_RR 5000 (example_frame 7) example_cluster = example_cluster"
proof -
  have "at16 (plaintext example_RR (c_key example_cluster) (example_frame 7)) 0
          \<notin> Some ` set (c_memberIds example_cluster)"
    by (simp add: example_frame_plaintext example_plain_ids example_cluster_fields)
  then show ?thesis
    using frame_level_rejection [of "example_frame 7" example_RR example_cluster 5000] by blast
qed

lemma affinities_emit: "c_peerAffinities (emit e c) = c_peerAffinities c"
  by (simp add: emit_def)

lemma affinities_update_member: "c_peerAffinities (update_member mid f c) = c_peerAffinities c"
  by (simp add: update_member_def)

lemma affinities_ALIVE: "c_peerAffinities (handle_ALIVE RR now M dmsg ptr c) = c_peerAffinities c"
  by (simp add: handle_ALIVE_def Let_def affinities_update_member split: option.splits prod.splits)

lemma affinities_MULTICAST_LIKE: "c_peerAffinities (handle_MULTICAST_LIKE now dmsg ptr c) = c_peerAffinities c"
  by (simp add: handle_MULTICAST_LIKE_def affinities_emit split: option.splits)

lemma affinities_PROXY_UNITE: "c_peerAffinities (handle_PROXY_UNITE RR now M dmsg ptr c) = c_peerAffinities c"
  by (simp add: handle_PROXY_UNITE_def Let_def affinities_emit affinities_flush affinities_send
      split: option.splits prod.splits)

lemma affinities_PROXY_SEND: "c_peerAffinities (handle_PROXY_SEND RR dmsg ptr c) = c_peerAffinities c"
  by (simp add: handle_PROXY_SEND_def affinities_emit split: option.splits)

lemma affinities_HAVE_PEER:
  "c_peerAffinities (handle_HAVE_PEER RR now M dmsg ptr c) P = c_peerAffinities c P
   \<or> c_peerAffinities (handle_HAVE_PEER RR now M dmsg ptr c) P = Some \<lparr>pa_ts = now, pa_mid = M\<rparr>"
  by (simp add: handle_HAVE_PEER_def Let_def affinities_emit split: option.splits prod.splits)

lemma affinities_dispatch:
  "c_peerAffinities (dispatch RR now M dmsg ptr c) P = c_peerAffinities c P
   \<or> c_peerAffinities (dispatch RR now M dmsg ptr c) P = Some \<lparr>pa_ts = now, pa_mid = M\<rparr>"
  using affinities_HAVE_PEER[of RR now M dmsg "ptr + 1" c P]
  by (simp add: dispatch_def affinities_ALIVE affinities_MULTICAST_LIKE affinities_PROXY_UNITE
      affinities_PROXY_SEND split: option.splits)

lemma affinities_parse_loop:
  "c_peerAffinities (parse_loop RR now M dmsg ptr c) P = c_peerAffinities c P
   \<or> c_peerAffinities (parse_loop RR now M dmsg ptr c) P = Some \<lparr>pa_ts = now, pa_mid = M\<rparr>"
proof (induction RR now M dmsg ptr c rule: parse_loop.induct)
  case (1 RR now M dmsg ptr c)
  show ?case
  proof (cases "ptr < length dmsg")
    case False
    then show ?thesis by (simp add: parse_loop.simps)
  next
    case True
    show ?thesis
    proof (cases "at16 dmsg ptr")
      case None
      with True show ?thesis by (simp add: parse_loop.simps)
    next
      case (Some mlen)
      show ?thesis
      proof (cases "ptr + 2 + unat mlen > length dmsg")
        case True
        with \<open>ptr < length dmsg\<close> Some show ?thesis by (simp add: parse_loop.simps)
      next
        case False
        let ?c1 = "dispatch RR now M dmsg (ptr + 2) c"
        have step: "parse_loop RR now M dmsg ptr c = parse_loop RR now M dmsg (ptr + 2 + unat mlen) ?c1"
          using \<open>ptr < length dmsg\<close> Some False by (subst parse_loop.simps) simp
        have ih: "c_peerAffinities (parse_loop RR now M dmsg (ptr + 2 + unat mlen) ?c1) P = c_peerAffinities ?c1 P
            \<or> c_peerAffinities (parse_loop RR now M dmsg (ptr + 2 + unat mlen) ?c1) P = Some \<lparr>pa_ts = now, pa_mid = M\<rparr>"
          using "1.IH"[OF \<open>ptr < length dmsg\<close> Some refl] False by simp
        with affinities_dispatch[of RR now M dmsg "ptr + 2" c P] step show ?thesis by auto
      qed
    qed
  qed
qed


lemma have_peer_dispatch:
  assumes "have_peer_at RR dmsg q = Some ident"
  shows "c_peerAffinities (dispatch RR now M dmsg (q + 2) c) (identity_address ident)
           = Some \<lparr>pa_ts = now, pa_mid = M\<rparr>"
proof -
  from assms have t: "at8 dmsg (q + 2) = Some (type_code STATE_MESSAGE_HAVE_PEER)"
    by (simp add: have_peer_at_def split: if_splits)
  from assms t obtain l1 where i: "Identity_deserialize RR dmsg (q + 2 + 1) = Some (ident, l1)"
    by (auto simp: have_peer_at_def split: option.splits prod.splits if_splits)
  from assms t i obtain a l2 where ia: "InetAddress_deserialize RR dmsg (q + 2 + 1 + l1) = (a, Some l2)"
    and v: "Identity_valid RR ident"
    by (auto simp: have_peer_at_def split: option.splits prod.splits if_splits)
  have "dispatch RR now M dmsg (q + 2) c = handle_HAVE_PEER RR now M dmsg (q + 2 + 1) c"
    using t by (simp add: dispatch_def)
  then show ?thesis
    using i ia v by (simp add: handle_HAVE_PEER_def Let_def affinities_emit)
qed

lemma offsets_mem:
  "q \<in> set (offsets dmsg ptr) \<longleftrightarrow>
     ptr < length dmsg \<and>
     (\<exists>mlen. at16 dmsg ptr = Some mlen \<and> ptr + 2 + unat mlen \<le> length dmsg
        \<and> (q = ptr \<or> q \<in> set (offsets dmsg (ptr + 2 + unat mlen))))"
proof (cases "ptr < length dmsg")
  case False
  then show ?thesis using offsets.simps[of dmsg ptr] by simp
next
  case True
  show ?thesis
  proof (cases "at16 dmsg ptr")
    case None
    with True show ?thesis using offsets.simps[of dmsg ptr] by simp
  next
    case (Some mlen)
    with True show ?thesis using offsets.simps[of dmsg ptr] by (simp add: Let_def not_less)
  qed
qed

lemma have_peer_parse_loop:
  assumes "q \<in> set (offsets dmsg ptr)" and "have_peer_at RR dmsg q = Some ident"
  shows "c_peerAffinities (parse_loop RR now M dmsg ptr c) (identity_address ident)
           = Some \<lparr>pa_ts = now, pa_mid = M\<rparr>"
  using assms
proof (induction RR now M dmsg ptr c rule: parse_loop.induct)
  case (1 RR now M dmsg ptr c)
  from "1.prems"(1) obtain mlen where lt: "ptr < length dmsg"
    and ml: "at16 dmsg ptr = Some mlen"
    and fits: "ptr + 2 + unat mlen \<le> length dmsg"
    and mem: "q = ptr \<or> q \<in> set (offsets dmsg (ptr + 2 + unat mlen))"
    using offsets_mem[of q dmsg ptr] by blast
  let ?c1 = "dispatch RR now M dmsg (ptr + 2) c"
  let ?P = "identity_address ident"
  have step: "parse_loop RR now M dmsg ptr c = parse_loop RR now M dmsg (ptr + 2 + unat mlen) ?c1"
    using lt ml fits by (subst parse_loop.simps) simp
  from mem show ?case
  proof
    assume "q = ptr"
    with "1.prems"(2) have "have_peer_at RR dmsg ptr = Some ident" by simp
    then have "c_peerAffinities ?c1 ?P = Some \<lparr>pa_ts = now, pa_mid = M\<rparr>"
      by (rule have_peer_dispatch)
    with affinities_parse_loop[of RR now M dmsg "ptr + 2 + unat mlen" ?c1 ?P] step
    show ?thesis by auto
  next
    assume "q \<in> set (offsets dmsg (ptr + 2 + unat mlen))"
    then have "c_peerAffinities (parse_loop RR now M dmsg (ptr + 2 + unat mlen) ?c1) ?P
                 = Some \<lparr>pa_ts = now, pa_mid = M\<rparr>"
      using "1.IH"[OF lt ml refl] fits "1.prems"(2) by simp
    with step show ?thesis by simp
  qed
qed

lemma example_plain_have_peer:
  "4 \<in> set (offsets (example_plain 3) 4)"
  "have_peer_at example_RR (example_plain 3) 4 = Some (Identity 0x0102030405 [])"
proof -
  have "at16 (example_plain 3) 4 = Some 7"
    by (simp add: example_plain_def at16_def field_def be16_def be_word_def submessage_def)
  then show "4 \<in> set (offsets (example_plain 3) 4)"
    by (subst offsets_mem) (simp add: length_example_plain)
  have a: "at8 (example_plain 3) (4 + 2) = Some (type_code STATE_MESSAGE_HAVE_PEER)"
    by (simp add: example_plain_def at8_def be16_def submessage_def)
  have b: "Identity_deserialize example_RR (example_plain 3) (4 + 2 + 1) = Some (Identity 0x0102030405 [], 5)"
    by (simp add: example_RR_def example_plain_def field_def be16_def submessage_def be_word_def)
  have c: "InetAddress_deserialize example_RR (example_plain 3) (4 + 2 + 1 + 5) = (InetAddress_nil, Some 1)"
    by (simp add: example_RR_def example_plain_def at8_def be16_def submessage_def)
  have d: "Identity_valid example_RR (Identity 0x0102030405 [])"
    by (simp add: example_RR_def)
  show "have_peer_at example_RR (example_plain 3) 4 = Some (Identity 0x0102030405 [])"
    unfolding have_peer_at_def using a b c d by simp
qed

text \<open>
  C3. HAVE\_PEER sets the affinity. When a frame is accepted from member \<open>M\<close> (it unseals, its
  sender id \<open>M\<close> is not the local id, its recipient id is the local id and \<open>M\<close> is in the member
  id set) and the sub-message loop reaches, at offset \<open>q\<close>, a well-formed HAVE\_PEER
  sub-message carrying an identity with address \<open>P\<close>, then after the call at node time \<open>now\<close>
  the affinity entry of \<open>P\<close> is \<open>(M, now)\<close>, whatever it was before. And for every frame, an
  affinity entry that the call changed is \<open>(M, now)\<close> for a member \<open>M\<close> of the member id set
  other than the local id: an inbound HAVE\_PEER never makes the local member the owner.
\<close>

theorem have_peer_affinity:
  "(unseal RR (c_key c) msg = Some dmsg \<and> at16 dmsg 0 = Some M \<and> M \<noteq> c_id c
      \<and> at16 dmsg 2 = Some (c_id c) \<and> M \<in> set (c_memberIds c)
      \<and> q \<in> set (offsets dmsg 4) \<and> have_peer_at RR dmsg q = Some ident
    \<longrightarrow> c_peerAffinities (handleIncomingStateMessage RR now msg c) (identity_address ident)
          = Some \<lparr>pa_ts = now, pa_mid = M\<rparr>)
   \<and> (\<forall>P. c_peerAffinities (handleIncomingStateMessage RR now msg c) P = c_peerAffinities c P
          \<or> (\<exists>M. M \<noteq> c_id c \<and> M \<in> set (c_memberIds c)
                \<and> c_peerAffinities (handleIncomingStateMessage RR now msg c) P
                    = Some \<lparr>pa_ts = now, pa_mid = M\<rparr>))"
proof (intro conjI impI allI)
  assume a: "unseal RR (c_key c) msg = Some dmsg \<and> at16 dmsg 0 = Some M \<and> M \<noteq> c_id c
      \<and> at16 dmsg 2 = Some (c_id c) \<and> M \<in> set (c_memberIds c)
      \<and> q \<in> set (offsets dmsg 4) \<and> have_peer_at RR dmsg q = Some ident"
  then have "4 \<le> length dmsg"
    by (auto simp: at16_def field_def split: if_splits)
  with a have "handleIncomingStateMessage RR now msg c = parse_loop RR now M dmsg 4 c"
    by (simp add: handleIncomingStateMessage_def)
  moreover from a have "q \<in> set (offsets dmsg 4)" and "have_peer_at RR dmsg q = Some ident"
    by simp_all
  then have "c_peerAffinities (parse_loop RR now M dmsg 4 c) (identity_address ident)
          = Some \<lparr>pa_ts = now, pa_mid = M\<rparr>"
    by (rule have_peer_parse_loop)
  ultimately show "c_peerAffinities (handleIncomingStateMessage RR now msg c) (identity_address ident)
          = Some \<lparr>pa_ts = now, pa_mid = M\<rparr>"
    by simp
next
  fix P
  show "c_peerAffinities (handleIncomingStateMessage RR now msg c) P = c_peerAffinities c P
          \<or> (\<exists>M. M \<noteq> c_id c \<and> M \<in> set (c_memberIds c)
                \<and> c_peerAffinities (handleIncomingStateMessage RR now msg c) P
                    = Some \<lparr>pa_ts = now, pa_mid = M\<rparr>)"
    using affinities_parse_loop[of RR now _ _ 4 c P]
    by (auto simp: handleIncomingStateMessage_def split: option.splits)
qed

theorem have_peer_affinity_witness:
  "c_peerAffinities example_owned 0x0102030405 = Some \<lparr>pa_ts = 500, pa_mid = 1\<rparr>
   \<and> c_peerAffinities (handleIncomingStateMessage example_RR 1000 (example_frame 3) example_owned)
       0x0102030405 = Some \<lparr>pa_ts = 1000, pa_mid = 3\<rparr>"
proof -
  have k: "c_key example_owned = c_key example_cluster"
    and i: "c_id example_owned = 1" and m: "c_memberIds example_owned = [2, 3]"
    by (simp_all add: example_owned_def example_cluster_fields)
  have "unseal example_RR (c_key example_owned) (example_frame 3) = Some (example_plain 3)
      \<and> at16 (example_plain 3) 0 = Some 3 \<and> 3 \<noteq> c_id example_owned
      \<and> at16 (example_plain 3) 2 = Some (c_id example_owned) \<and> 3 \<in> set (c_memberIds example_owned)
      \<and> 4 \<in> set (offsets (example_plain 3) 4)
      \<and> have_peer_at example_RR (example_plain 3) 4 = Some (Identity 0x0102030405 [])"
    by (simp add: k i m example_frame_unseal example_plain_ids example_plain_have_peer)
  with have_peer_affinity [of example_RR example_owned "example_frame 3" "example_plain 3" 3 4
      "Identity 0x0102030405 []" 1000]
  have "c_peerAffinities (handleIncomingStateMessage example_RR 1000 (example_frame 3) example_owned)
          (identity_address (Identity 0x0102030405 [])) = Some \<lparr>pa_ts = 1000, pa_mid = 3\<rparr>"
    by blast
  then show ?thesis by (simp add: example_owned_def)
qed

subsection \<open>Announcing peers\<close>

lemma example_have_peer_body:
  "Identity_serialize example_RR (Identity 0x0102030405 []) @ InetAddress_serialize example_RR example_v4
     = [1, 2, 3, 4, 5, 4, 203, 0, 113, 5, 0x27, 0x09]"
  by (simp add: example_RR_def example_v4_def be_bytes_def be16_def upt_rec drop_bit_eq_div)

text \<open>
  C4. Debounce. If a call of \<^verbatim>\<open>replicateHavePeer\<close> for a peer at time \<open>t1\<close> is not itself
  debounced (the entry was absent or owned by another member, or owned locally and at least
  \<^verbatim>\<open>ZT_CLUSTER_HAVE_PEER_ANNOUNCE_PERIOD\<close> old), it sets the entry to the local id and \<open>t1\<close> and
  runs \<^verbatim>\<open>_send\<close> for every member of the member id set with a HAVE\_PEER sub-message whose
  body is the serialised identity followed by the serialised address. When the member ids
  are distinct (\<^verbatim>\<open>addMember\<close> and \<^verbatim>\<open>removeMember\<close> keep them so) and the body fits a
  sub-message, the broadcast is this: the queue of every member of the set ends with that
  sub-message, appended to what the queue held, or to a fresh queue when the sub-message
  did not fit and the old queue was flushed; the queues of all other members are unchanged;
  and no frame is sent when every queue had room. A second call for the same peer at \<open>t2\<close>
  with \<open>t2 - t1\<close> below the period then changes nothing: no sub-message is queued, no frame
  sent, and the timestamp stays \<open>t1\<close>. The two calls produce exactly one broadcast. More
  generally, a call at \<open>t2\<close> changes nothing in any state \<open>c'\<close> whose entry for the peer is
  owned by the local id and stamped \<open>t1\<close>.
\<close>

theorem replicateHavePeer_debounce:
  assumes first: "pa_mid (affinity_entry c (identity_address peerId)) \<noteq> c_id c
                  \<or> ZT_CLUSTER_HAVE_PEER_ANNOUNCE_PERIOD \<le> t1 - pa_ts (affinity_entry c (identity_address peerId))"
    and within: "t2 - t1 < ZT_CLUSTER_HAVE_PEER_ANNOUNCE_PERIOD"
    and body: "body = Identity_serialize RR peerId @ InetAddress_serialize RR addr"
  shows "replicateHavePeer RR t1 peerId addr c =
           broadcast RR STATE_MESSAGE_HAVE_PEER body
             (c\<lparr>c_peerAffinities := (c_peerAffinities c)
                  (identity_address peerId \<mapsto> \<lparr>pa_ts = t1, pa_mid = c_id c\<rparr>)\<rparr>)
       \<and> c_peerAffinities (replicateHavePeer RR t1 peerId addr c) (identity_address peerId)
           = Some \<lparr>pa_ts = t1, pa_mid = c_id c\<rparr>
       \<and> (distinct (c_memberIds c) \<and> length body + 3 \<le> ZT_CLUSTER_MAX_MESSAGE_LENGTH - 28 \<longrightarrow>
            (\<forall>mid \<in> set (c_memberIds c).
               (length (m_q (c_members c mid)) + length body + 3 \<le> ZT_CLUSTER_MAX_MESSAGE_LENGTH \<longrightarrow>
                  m_q (c_members (replicateHavePeer RR t1 peerId addr c) mid)
                    = m_q (c_members c mid) @ submessage (STATE_MESSAGE_HAVE_PEER, body))
             \<and> (ZT_CLUSTER_MAX_MESSAGE_LENGTH < length (m_q (c_members c mid)) + length body + 3 \<longrightarrow>
                  (\<exists>iv. length iv = 16 \<and>
                     m_q (c_members (replicateHavePeer RR t1 peerId addr c) mid)
                       = fresh_queue (c_id c) mid iv
                           (take 8 (drop 16 (seal RR (m_key (c_members c mid)) (m_q (c_members c mid)))))
                         @ submessage (STATE_MESSAGE_HAVE_PEER, body))))
          \<and> (\<forall>mid. mid \<notin> set (c_memberIds c) \<longrightarrow>
                m_q (c_members (replicateHavePeer RR t1 peerId addr c) mid) = m_q (c_members c mid))
          \<and> ((\<forall>mid \<in> set (c_memberIds c).
                 length (m_q (c_members c mid)) + length body + 3 \<le> ZT_CLUSTER_MAX_MESSAGE_LENGTH) \<longrightarrow>
               c_trace (replicateHavePeer RR t1 peerId addr c) = c_trace c))
       \<and> replicateHavePeer RR t2 peerId addr' (replicateHavePeer RR t1 peerId addr c)
           = replicateHavePeer RR t1 peerId addr c
       \<and> (c_peerAffinities c' (identity_address peerId) = Some \<lparr>pa_ts = t1, pa_mid = c_id c'\<rparr>
            \<longrightarrow> replicateHavePeer RR t2 peerId addr' c' = c')"
proof -
  let ?a = "identity_address peerId"
  let ?c0 = "c\<lparr>c_peerAffinities := (c_peerAffinities c)(?a \<mapsto> \<lparr>pa_ts = t1, pa_mid = c_id c\<rparr>)\<rparr>"
  let ?send = "\<lambda>c' mid. Cluster_send RR mid STATE_MESSAGE_HAVE_PEER body c'"
  let ?c1 = "broadcast RR STATE_MESSAGE_HAVE_PEER body ?c0"
  have upd: "(affinity_entry c ?a)\<lparr>pa_ts := t1\<rparr> = \<lparr>pa_ts = t1, pa_mid = c_id c\<rparr>"
    if "pa_mid (affinity_entry c ?a) = c_id c"
    using that by (cases "affinity_entry c ?a") simp
  have one: "replicateHavePeer RR t1 peerId addr c = ?c1"
    using first by (auto simp: replicateHavePeer_def have_peer_body_def body Let_def upd not_less)
  have fold: "?c1 = foldl ?send ?c0 (c_memberIds c)"
    by (simp add: broadcast_def)
  have aff: "c_peerAffinities ?c1 ?a = Some \<lparr>pa_ts = t1, pa_mid = c_id c\<rparr>"
    by (simp add: affinities_broadcast)
  have idc: "c_id ?c1 = c_id c"
    by (simp add: id_broadcast)
  have queued: "(length (m_q (c_members c mid)) + length body + 3 \<le> ZT_CLUSTER_MAX_MESSAGE_LENGTH \<longrightarrow>
                   m_q (c_members ?c1 mid) = m_q (c_members c mid) @ submessage (STATE_MESSAGE_HAVE_PEER, body))
              \<and> (ZT_CLUSTER_MAX_MESSAGE_LENGTH < length (m_q (c_members c mid)) + length body + 3 \<longrightarrow>
                   (\<exists>iv. length iv = 16 \<and>
                      m_q (c_members ?c1 mid)
                        = fresh_queue (c_id c) mid iv
                            (take 8 (drop 16 (seal RR (m_key (c_members c mid)) (m_q (c_members c mid)))))
                          @ submessage (STATE_MESSAGE_HAVE_PEER, body)))"
    if "distinct (c_memberIds c)" "length body + 3 \<le> ZT_CLUSTER_MAX_MESSAGE_LENGTH - 28"
      "mid \<in> set (c_memberIds c)" for mid
    using queue_foldl_send[OF that(1) that(3) that(2), of ?c0 RR STATE_MESSAGE_HAVE_PEER]
    unfolding fold by simp
  have others: "m_q (c_members ?c1 mid) = m_q (c_members c mid)" if "mid \<notin> set (c_memberIds c)" for mid
    using queue_foldl_send_other[OF that, of RR STATE_MESSAGE_HAVE_PEER body ?c0]
    unfolding fold by simp
  have silent: "c_trace ?c1 = c_trace c"
    if "distinct (c_memberIds c)"
      "\<forall>mid \<in> set (c_memberIds c).
         length (m_q (c_members c mid)) + length body + 3 \<le> ZT_CLUSTER_MAX_MESSAGE_LENGTH"
    using trace_foldl_send_fits[of "c_memberIds c" ?c0 body RR STATE_MESSAGE_HAVE_PEER] that
    unfolding fold by simp
  have quiet: "replicateHavePeer RR t2 peerId addr' d = d"
    if owned: "c_peerAffinities d ?a = Some \<lparr>pa_ts = t1, pa_mid = c_id d\<rparr>" for d
  proof -
    have ent: "affinity_entry d ?a = \<lparr>pa_ts = t1, pa_mid = c_id d\<rparr>"
      by (simp add: affinity_entry_def owned)
    have "(c_peerAffinities d)(?a \<mapsto> \<lparr>pa_ts = t1, pa_mid = c_id d\<rparr>) = c_peerAffinities d"
      using owned by (rule map_upd_triv)
    then show ?thesis
      using within by (simp add: replicateHavePeer_def Let_def ent)
  qed
  have two: "replicateHavePeer RR t2 peerId addr' ?c1 = ?c1"
    using aff idc by (intro quiet) simp
  have c1: "replicateHavePeer RR t1 peerId addr c = ?c1" by (rule one)
  have c2: "c_peerAffinities (replicateHavePeer RR t1 peerId addr c) ?a = Some \<lparr>pa_ts = t1, pa_mid = c_id c\<rparr>"
    unfolding one by (rule aff)
  have c3: "distinct (c_memberIds c) \<and> length body + 3 \<le> ZT_CLUSTER_MAX_MESSAGE_LENGTH - 28 \<longrightarrow>
            (\<forall>mid \<in> set (c_memberIds c).
               (length (m_q (c_members c mid)) + length body + 3 \<le> ZT_CLUSTER_MAX_MESSAGE_LENGTH \<longrightarrow>
                  m_q (c_members (replicateHavePeer RR t1 peerId addr c) mid)
                    = m_q (c_members c mid) @ submessage (STATE_MESSAGE_HAVE_PEER, body))
             \<and> (ZT_CLUSTER_MAX_MESSAGE_LENGTH < length (m_q (c_members c mid)) + length body + 3 \<longrightarrow>
                  (\<exists>iv. length iv = 16 \<and>
                     m_q (c_members (replicateHavePeer RR t1 peerId addr c) mid)
                       = fresh_queue (c_id c) mid iv
                           (take 8 (drop 16 (seal RR (m_key (c_members c mid)) (m_q (c_members c mid)))))
                         @ submessage (STATE_MESSAGE_HAVE_PEER, body))))
          \<and> (\<forall>mid. mid \<notin> set (c_memberIds c) \<longrightarrow>
                m_q (c_members (replicateHavePeer RR t1 peerId addr c) mid) = m_q (c_members c mid))
          \<and> ((\<forall>mid \<in> set (c_memberIds c).
                 length (m_q (c_members c mid)) + length body + 3 \<le> ZT_CLUSTER_MAX_MESSAGE_LENGTH) \<longrightarrow>
               c_trace (replicateHavePeer RR t1 peerId addr c) = c_trace c)"
    unfolding one using queued others silent by blast
  have c4: "replicateHavePeer RR t2 peerId addr' (replicateHavePeer RR t1 peerId addr c)
           = replicateHavePeer RR t1 peerId addr c"
    unfolding one by (rule two)
  have c5: "c_peerAffinities c' ?a = Some \<lparr>pa_ts = t1, pa_mid = c_id c'\<rparr>
            \<longrightarrow> replicateHavePeer RR t2 peerId addr' c' = c'"
    using quiet[of c'] by simp
  show ?thesis
    using c1 c2 c3 c4 c5 by (intro conjI)
qed

theorem replicateHavePeer_debounce_witness:
  "replicateHavePeer example_RR 32000 (Identity 0x0102030405 []) example_v4
     (replicateHavePeer example_RR 2000 (Identity 0x0102030405 []) example_v4 example_affinities)
     = replicateHavePeer example_RR 2000 (Identity 0x0102030405 []) example_v4 example_affinities
   \<and> c_peerAffinities
        (replicateHavePeer example_RR 2000 (Identity 0x0102030405 []) example_v4 example_affinities)
        0x0102030405 = Some \<lparr>pa_ts = 2000, pa_mid = 1\<rparr>
   \<and> m_q (c_members
        (replicateHavePeer example_RR 2000 (Identity 0x0102030405 []) example_v4 example_affinities) 2)
       = fresh_queue 1 2 (map of_nat [0..<16]) (replicate 8 0)
           @ submessage (STATE_MESSAGE_HAVE_PEER, [1, 2, 3, 4, 5, 4, 203, 0, 113, 5, 0x27, 0x09])
   \<and> m_q (c_members
        (replicateHavePeer example_RR 2000 (Identity 0x0102030405 []) example_v4 example_affinities) 3)
       = fresh_queue 1 3 (map of_nat [16..<32]) (replicate 8 0)
           @ submessage (STATE_MESSAGE_HAVE_PEER, [1, 2, 3, 4, 5, 4, 203, 0, 113, 5, 0x27, 0x09])
   \<and> c_trace
        (replicateHavePeer example_RR 2000 (Identity 0x0102030405 []) example_v4 example_affinities) = []"
proof -
  have first: "pa_mid (affinity_entry example_affinities (identity_address (Identity 0x0102030405 [])))
      \<noteq> c_id example_affinities
    \<or> ZT_CLUSTER_HAVE_PEER_ANNOUNCE_PERIOD
        \<le> 2000 - pa_ts (affinity_entry example_affinities (identity_address (Identity 0x0102030405 [])))"
    by (simp add: affinity_entry_def example_affinities_fields)
  have within: "(32000 :: 64 word) - 2000 < ZT_CLUSTER_HAVE_PEER_ANNOUNCE_PERIOD"
    by (simp add: ZT_CLUSTER_HAVE_PEER_ANNOUNCE_PERIOD_def)
  have body: "[1, 2, 3, 4, 5, 4, 203, 0, 113, 5, 0x27, 0x09]
      = Identity_serialize example_RR (Identity 0x0102030405 []) @ InetAddress_serialize example_RR example_v4"
    by (simp add: example_have_peer_body)
  have len: "length (fresh_queue a b (map of_nat [m..<m + 16]) (replicate 8 0)) = 28" for a b m
    by (simp add: length_fresh_queue)
  show ?thesis
    using replicateHavePeer_debounce [OF first within body, of example_v4, THEN conjunct2]
    using len[of 1 2 0] len[of 1 3 16]
    by (simp add: example_affinities_fields example_cluster_fields
        ZT_CLUSTER_MAX_MESSAGE_LENGTH_def)
qed


subsection \<open>The periodic sweep\<close>

lemma stale_word:
  fixes now ts :: "64 word"
  assumes "uint ts < uint now - 1500000"
  shows "1500000 \<le> now - ts"
proof -
  have "uint ts \<le> uint now" using assms by simp
  then have "uint (now - ts) = uint now - uint ts"
    by (simp add: uint_sub_if')
  then show ?thesis
    using assms by (simp add: word_le_def)
qed
lemma swept_clean: "swept now (cleanPeerAffinities now c)"
  by (auto simp: swept_def cleanPeerAffinities_def not_le split: option.splits if_splits)

lemma period_less: "ZT_CLUSTER_HAVE_PEER_ANNOUNCE_PERIOD < ZT_PEER_ACTIVITY_TIMEOUT * 5"
  by (simp add: ZT_CLUSTER_HAVE_PEER_ANNOUNCE_PERIOD_def ZT_PEER_ACTIVITY_TIMEOUT_def)

lemma zero_less_timeout: "now - now < ZT_PEER_ACTIVITY_TIMEOUT * 5"
  by (simp add: ZT_PEER_ACTIVITY_TIMEOUT_def)

lemma swept_replicate:
  assumes "swept now c" shows "swept now (replicateHavePeer RR now peerId a c)"
  using assms period_less zero_less_timeout
  by (auto simp: swept_def replicateHavePeer_def Let_def affinities_broadcast split: if_splits)

lemma dom_replicate:
  "dom (c_peerAffinities c) \<subseteq> dom (c_peerAffinities (replicateHavePeer RR now peerId a c))"
  by (auto simp: replicateHavePeer_def Let_def affinities_broadcast split: if_splits)

lemma announce_fold:
  "swept now c \<Longrightarrow>
   swept now (foldl (\<lambda>c' (peerId, p). case p of None \<Rightarrow> c' | Some a \<Rightarrow> replicateHavePeer RR now peerId a c') c ps)
   \<and> dom (c_peerAffinities c) \<subseteq>
       dom (c_peerAffinities (foldl (\<lambda>c' (peerId, p). case p of None \<Rightarrow> c' | Some a \<Rightarrow> replicateHavePeer RR now peerId a c') c ps))"
proof (induction ps arbitrary: c)
  case Nil
  then show ?case by simp
next
  case (Cons x ps)
  obtain peerId p where x: "x = (peerId, p)" by (cases x)
  show ?case
  proof (cases p)
    case None
    with Cons x show ?thesis by simp
  next
    case (Some a)
    have "swept now (replicateHavePeer RR now peerId a c)"
      using Cons.prems by (rule swept_replicate)
    from Cons.IH[OF this] dom_replicate[of c RR now peerId a] x Some
    show ?thesis by auto
  qed
qed

lemma swept_announce:
  "swept now c \<Longrightarrow> swept now (announcePeers RR now c)
     \<and> dom (c_peerAffinities c) \<subseteq> dom (c_peerAffinities (announcePeers RR now c))"
  unfolding announcePeers_def
  using announce_fold[of now "c\<lparr>c_lastCheckedPeersForAnnounce := now\<rparr>" RR "eachPeer RR (c_trace c) now"]
  by (simp add: swept_def)

lemma affinities_alive:
  "c_peerAffinities (announceAliveAndFlush RR now mid c) = c_peerAffinities c"
  by (simp add: announceAliveAndFlush_def Let_def affinities_flush affinities_send)

lemma affinities_flushMembers_fold:
  "c_peerAffinities (foldl (\<lambda>c' mid. announceAliveAndFlush RR now mid c') c mids) = c_peerAffinities c"
  by (induction mids arbitrary: c) (simp_all add: affinities_alive)

lemma affinities_flushMembers:
  "c_peerAffinities (flushMembers RR now c) = c_peerAffinities c"
  by (simp add: flushMembers_def affinities_flushMembers_fold)

lemma swept_int:
  assumes "now - pa_ts v < ZT_PEER_ACTIVITY_TIMEOUT * 5"
  shows "\<not> uint (pa_ts v) < uint now - 5 * uint ZT_PEER_ACTIVITY_TIMEOUT"
proof
  assume "uint (pa_ts v) < uint now - 5 * uint ZT_PEER_ACTIVITY_TIMEOUT"
  then have "uint (pa_ts v) < uint now - 1500000"
    by (simp add: ZT_PEER_ACTIVITY_TIMEOUT_def)
  then have "1500000 \<le> now - pa_ts v" by (rule stale_word)
  with assms show False by (simp add: ZT_PEER_ACTIVITY_TIMEOUT_def)
qed

lemma affinities_doPeriodicTasks:
  "c_peerAffinities (doPeriodicTasks RR now c) =
     c_peerAffinities
       (let c1 = (if now - c_lastCleanedPeerAffinities c \<ge> ZT_PEER_ACTIVITY_TIMEOUT * 5
                  then cleanPeerAffinities now c else c)
        in if now - c_lastCheckedPeersForAnnounce c1 \<ge> ZT_CLUSTER_HAVE_PEER_ANNOUNCE_PERIOD div 4
           then announcePeers RR now c1 else c1)"
  by (simp add: doPeriodicTasks_def Let_def affinities_flushMembers)

text \<open>
  C9. Affinity sweep. When \<^verbatim>\<open>doPeriodicTasks\<close> runs at node time \<open>now\<close> with the sweep due
  (\<open>now\<close> minus the time of the last sweep is at least five times
  \<^verbatim>\<open>ZT_PEER_ACTIVITY_TIMEOUT\<close>), no entry of the affinity map afterwards has a timestamp
  below \<open>now\<close> minus five timeouts (as integers, so without wrap-around), and an entry whose
  age \<open>now - ts\<close> (as the code computes it, in unsigned 64-bit arithmetic) is below five
  timeouts survives the sweep unchanged and still has an entry when \<^verbatim>\<open>doPeriodicTasks\<close>
  returns.
\<close>

theorem doPeriodicTasks_gc:
  assumes due: "ZT_PEER_ACTIVITY_TIMEOUT * 5 \<le> now - c_lastCleanedPeerAffinities c"
  shows "(\<forall>k v. c_peerAffinities (doPeriodicTasks RR now c) k = Some v \<longrightarrow>
            \<not> uint (pa_ts v) < uint now - 5 * uint ZT_PEER_ACTIVITY_TIMEOUT)
       \<and> (\<forall>k v. c_peerAffinities c k = Some v \<and> now - pa_ts v < ZT_PEER_ACTIVITY_TIMEOUT * 5 \<longrightarrow>
            c_peerAffinities (cleanPeerAffinities now c) k = Some v
            \<and> k \<in> dom (c_peerAffinities (doPeriodicTasks RR now c)))"
proof -
  let ?c1 = "cleanPeerAffinities now c"
  let ?c2 = "if ZT_CLUSTER_HAVE_PEER_ANNOUNCE_PERIOD div 4 \<le> now - c_lastCheckedPeersForAnnounce ?c1
             then announcePeers RR now ?c1 else ?c1"
  have res: "c_peerAffinities (doPeriodicTasks RR now c) = c_peerAffinities ?c2"
    using due by (simp add: doPeriodicTasks_def Let_def affinities_flushMembers)
  have s1: "swept now ?c1" by (rule swept_clean)
  have s2: "swept now ?c2 \<and> dom (c_peerAffinities ?c1) \<subseteq> dom (c_peerAffinities ?c2)"
    using swept_announce[OF s1, of RR] s1 by simp
  have a: "\<not> uint (pa_ts v) < uint now - 5 * uint ZT_PEER_ACTIVITY_TIMEOUT"
    if "c_peerAffinities (doPeriodicTasks RR now c) k = Some v" for k v
    using that s2 res swept_int[of now v] by (simp add: swept_def)
  have b: "c_peerAffinities ?c1 k = Some v \<and> k \<in> dom (c_peerAffinities (doPeriodicTasks RR now c))"
    if "c_peerAffinities c k = Some v" "now - pa_ts v < ZT_PEER_ACTIVITY_TIMEOUT * 5" for k v
  proof -
    have k1: "c_peerAffinities ?c1 k = Some v"
      using that by (simp add: cleanPeerAffinities_def not_le)
    then have "k \<in> dom (c_peerAffinities ?c2)" using s2 by blast
    with k1 res show ?thesis by simp
  qed
  show ?thesis using a b by blast
qed

theorem doPeriodicTasks_gc_witness:
  "ZT_PEER_ACTIVITY_TIMEOUT * 5 \<le> 2000000 - c_lastCleanedPeerAffinities example_affinities
   \<and> c_peerAffinities (doPeriodicTasks example_RR 2000000 example_affinities) 0x0102030405 = None
   \<and> c_peerAffinities (doPeriodicTasks example_RR 2000000 example_affinities) 0x0102030406
       = Some \<lparr>pa_ts = 1900000, pa_mid = 3\<rparr>
   \<and> \<not> uint (1900000 :: 64 word) < uint (2000000 :: 64 word) - 5 * uint ZT_PEER_ACTIVITY_TIMEOUT"
proof -
  have due: "ZT_PEER_ACTIVITY_TIMEOUT * 5 \<le> 2000000 - c_lastCleanedPeerAffinities example_affinities"
    by (simp add: example_affinities_fields ZT_PEER_ACTIVITY_TIMEOUT_def)
  have gone: "c_peerAffinities (doPeriodicTasks example_RR 2000000 example_affinities) 0x0102030405 = None"
    by (simp add: affinities_doPeriodicTasks Let_def example_affinities_fields
        ZT_PEER_ACTIVITY_TIMEOUT_def ZT_CLUSTER_HAVE_PEER_ANNOUNCE_PERIOD_def
        cleanPeerAffinities_def announcePeers_def example_RR_def)
  have kept: "c_peerAffinities (doPeriodicTasks example_RR 2000000 example_affinities) 0x0102030406
       = Some \<lparr>pa_ts = 1900000, pa_mid = 3\<rparr>"
    by (simp add: affinities_doPeriodicTasks Let_def example_affinities_fields
        ZT_PEER_ACTIVITY_TIMEOUT_def ZT_CLUSTER_HAVE_PEER_ANNOUNCE_PERIOD_def
        cleanPeerAffinities_def announcePeers_def example_RR_def)
  from doPeriodicTasks_gc[OF due, of example_RR] kept
  have "\<not> uint (pa_ts \<lparr>pa_ts = 1900000, pa_mid = 3\<rparr>) < uint (2000000 :: 64 word) - 5 * uint ZT_PEER_ACTIVITY_TIMEOUT"
    by blast
  with due gone kept show ?thesis by simp
qed

subsection \<open>Redirecting peers\<close>

lemma closest_member_step:
  "closest_member RR now c p (mid # mids) (bd, bm, b) =
     closest_member RR now c p mids
       (if considered now (c_members c mid) \<and> member_distance RR c p mid < bd
        then (member_distance RR c p mid, mid, m_zeroTierPhysicalEndpoints (c_members c mid))
        else (bd, bm, b))"
  by (cases p) (simp add: member_distance_def Let_def)

lemma closest_member_sound:
  assumes "closest_member RR now c p mids (bd, bm, b) = (bd', bm', b')"
    and "b = [] \<or> (\<exists>M \<in> S. considered now (c_members c M) \<and> b = m_zeroTierPhysicalEndpoints (c_members c M)
                       \<and> member_distance RR c p M = bd)"
    and "bd \<le> base" and "set mids \<subseteq> S"
  shows "(b' = [] \<or> (\<exists>M \<in> S. considered now (c_members c M) \<and> b' = m_zeroTierPhysicalEndpoints (c_members c M)
                       \<and> member_distance RR c p M = bd')) \<and> bd' \<le> base"
  using assms
proof (induction mids arbitrary: bd bm b)
  case Nil
  then show ?case by simp
next
  case (Cons mid mids)
  show ?case
  proof (cases "considered now (c_members c mid) \<and> member_distance RR c p mid < bd")
    case True
    with Cons.prems(1) have run: "closest_member RR now c p mids
        (member_distance RR c p mid, mid, m_zeroTierPhysicalEndpoints (c_members c mid)) = (bd', bm', b')"
      by (simp add: closest_member_step del: closest_member.simps)
    show ?thesis
    proof (rule Cons.IH[OF run])
      show "m_zeroTierPhysicalEndpoints (c_members c mid) = [] \<or>
        (\<exists>M\<in>S. considered now (c_members c M) \<and>
           m_zeroTierPhysicalEndpoints (c_members c mid) = m_zeroTierPhysicalEndpoints (c_members c M) \<and>
           member_distance RR c p M = member_distance RR c p mid)"
        using True Cons.prems(4) by auto
      show "member_distance RR c p mid \<le> base" using True Cons.prems(3) by simp
      show "set mids \<subseteq> S" using Cons.prems(4) by simp
    qed
  next
    case False
    with Cons.prems(1) have run: "closest_member RR now c p mids (bd, bm, b) = (bd', bm', b')"
      by (simp add: closest_member_step del: closest_member.simps)
    show ?thesis
      using Cons.IH[OF run Cons.prems(2,3)] Cons.prems(4) by simp
  qed
qed

lemma closest_member_strict:
  assumes "closest_member RR now c p mids (bd, bm, b) = (bd', bm', b')"
    and "b = [] \<or> bd < base" and "bd \<le> base"
  shows "b' = [] \<or> bd' < base"
  using assms
proof (induction mids arbitrary: bd bm b)
  case Nil
  then show ?case by simp
next
  case (Cons mid mids)
  show ?case
  proof (cases "considered now (c_members c mid) \<and> member_distance RR c p mid < bd")
    case True
    with Cons.prems(1) have run: "closest_member RR now c p mids
        (member_distance RR c p mid, mid, m_zeroTierPhysicalEndpoints (c_members c mid)) = (bd', bm', b')"
      by (simp add: closest_member_step del: closest_member.simps)
    show ?thesis
      using Cons.IH[OF run] True Cons.prems(3) by simp
  next
    case False
    with Cons.prems(1) have run: "closest_member RR now c p mids (bd, bm, b) = (bd', bm', b')"
      by (simp add: closest_member_step del: closest_member.simps)
    show ?thesis
      using Cons.IH[OF run Cons.prems(2,3)] by simp
  qed
qed

lemma closest_member_append:
  "closest_member RR now c p (xs @ ys) acc =
     closest_member RR now c p ys (closest_member RR now c p xs acc)"
  by (induction xs arbitrary: acc) simp_all

lemma closest_member_snoc:
  "closest_member RR now c p (xs @ [a]) acc =
     (case closest_member RR now c p xs acc of (bd, bm, b) \<Rightarrow>
        if considered now (c_members c a) \<and> member_distance RR c p a < bd
        then (member_distance RR c p a, a, m_zeroTierPhysicalEndpoints (c_members c a))
        else (bd, bm, b))"
proof -
  obtain bd bm b where r: "closest_member RR now c p xs acc = (bd, bm, b)"
    by (cases "closest_member RR now c p xs acc")
  have "closest_member RR now c p [a] (bd, bm, b) =
      (if considered now (c_members c a) \<and> member_distance RR c p a < bd
        then (member_distance RR c p a, a, m_zeroTierPhysicalEndpoints (c_members c a))
        else (bd, bm, b))"
    by (simp add: closest_member_step del: closest_member.simps(2))
  then show ?thesis
    by (simp add: closest_member_append r del: closest_member.simps)
qed

lemma closest_member_selects:
  "(\<not> (\<exists>M \<in> set mids. considered now (c_members c M) \<and> member_distance RR c p M < bd)
      \<and> closest_member RR now c p mids (bd, bm, b) = (bd, bm, b))
   \<or> (\<exists>pre M post. mids = pre @ M # post
        \<and> considered now (c_members c M) \<and> member_distance RR c p M < bd
        \<and> (\<forall>M' \<in> set pre. considered now (c_members c M') \<longrightarrow>
              member_distance RR c p M < member_distance RR c p M')
        \<and> (\<forall>M' \<in> set post. considered now (c_members c M') \<longrightarrow>
              member_distance RR c p M \<le> member_distance RR c p M')
        \<and> closest_member RR now c p mids (bd, bm, b)
            = (member_distance RR c p M, M, m_zeroTierPhysicalEndpoints (c_members c M)))"
proof (induction mids rule: rev_induct)
  case Nil
  then show ?case by simp
next
  case (snoc a xs)
  let ?D = "member_distance RR c p"
  let ?C = "\<lambda>M. considered now (c_members c M)"
  let ?E = "\<lambda>M. m_zeroTierPhysicalEndpoints (c_members c M)"
  from snoc.IH consider
    (none) "\<not> (\<exists>M \<in> set xs. ?C M \<and> ?D M < bd)" "closest_member RR now c p xs (bd, bm, b) = (bd, bm, b)"
  | (some) pre M post where "xs = pre @ M # post" "?C M" "?D M < bd"
      "\<forall>M' \<in> set pre. ?C M' \<longrightarrow> ?D M < ?D M'"
      "\<forall>M' \<in> set post. ?C M' \<longrightarrow> ?D M \<le> ?D M'"
      "closest_member RR now c p xs (bd, bm, b) = (?D M, M, ?E M)"
    by blast
  then show ?case
  proof cases
    case none
    show ?thesis
    proof (cases "?C a \<and> ?D a < bd")
      case True
      have r: "closest_member RR now c p (xs @ [a]) (bd, bm, b) = (?D a, a, ?E a)"
        using True none(2) by (simp add: closest_member_snoc)
      have "\<forall>M' \<in> set xs. ?C M' \<longrightarrow> ?D a < ?D M'"
        using none(1) True by force
      then have "xs @ [a] = xs @ a # [] \<and> ?C a \<and> ?D a < bd
          \<and> (\<forall>M' \<in> set xs. ?C M' \<longrightarrow> ?D a < ?D M')
          \<and> (\<forall>M' \<in> set []. ?C M' \<longrightarrow> ?D a \<le> ?D M')
          \<and> closest_member RR now c p (xs @ [a]) (bd, bm, b) = (?D a, a, ?E a)"
        using True r by simp
      then show ?thesis by blast
    next
      case False
      have "closest_member RR now c p (xs @ [a]) (bd, bm, b) = (bd, bm, b)"
        using False none(2) by (simp add: closest_member_snoc)
      moreover have "\<not> (\<exists>M \<in> set (xs @ [a]). ?C M \<and> ?D M < bd)"
        using False none(1) by auto
      ultimately show ?thesis by blast
    qed
  next
    case some
    show ?thesis
    proof (cases "?C a \<and> ?D a < ?D M")
      case True
      have r: "closest_member RR now c p (xs @ [a]) (bd, bm, b) = (?D a, a, ?E a)"
        using True some(6) by (simp add: closest_member_snoc)
      have "\<forall>M' \<in> set xs. ?C M' \<longrightarrow> ?D a < ?D M'"
        using some(1,4,5) True by force
      moreover have "?D a < bd" using True some(3) by simp
      ultimately have "xs @ [a] = xs @ a # [] \<and> ?C a \<and> ?D a < bd
          \<and> (\<forall>M' \<in> set xs. ?C M' \<longrightarrow> ?D a < ?D M')
          \<and> (\<forall>M' \<in> set []. ?C M' \<longrightarrow> ?D a \<le> ?D M')
          \<and> closest_member RR now c p (xs @ [a]) (bd, bm, b) = (?D a, a, ?E a)"
        using True r by simp
      then show ?thesis by blast
    next
      case False
      have r: "closest_member RR now c p (xs @ [a]) (bd, bm, b) = (?D M, M, ?E M)"
        using False some(6) by (simp add: closest_member_snoc)
      have "\<forall>M' \<in> set (post @ [a]). ?C M' \<longrightarrow> ?D M \<le> ?D M'"
        using some(5) False by auto
      then have "xs @ [a] = pre @ M # (post @ [a]) \<and> ?C M \<and> ?D M < bd
          \<and> (\<forall>M' \<in> set pre. ?C M' \<longrightarrow> ?D M < ?D M')
          \<and> (\<forall>M' \<in> set (post @ [a]). ?C M' \<longrightarrow> ?D M \<le> ?D M')
          \<and> closest_member RR now c p (xs @ [a]) (bd, bm, b) = (?D M, M, ?E M)"
        using some r by simp
      then show ?thesis by blast
    qed
  qed
qed

lemma example_located_fields:
  "c_id (example_located eps) = 1"
  "c_memberIds (example_located eps) = [2, 3]"
  "c_x (example_located eps) = 0" "c_y (example_located eps) = 0" "c_z (example_located eps) = 0"
  "m_x (c_members (example_located eps) 2) = 0"
  "m_y (c_members (example_located eps) 2) = 0"
  "m_z (c_members (example_located eps) 2) = 0"
  "m_zeroTierPhysicalEndpoints (c_members (example_located eps) 3) = eps"
  "m_x (c_members (example_located eps) 3) = 100"
  "m_y (c_members (example_located eps) 3) = 0"
  "m_z (c_members (example_located eps) 3) = 0"
  "m_lastReceivedAliveAnnouncement (c_members (example_located eps) 3) = 1000"
  by (simp_all add: example_located_def update_member_def example_cluster_fields)

lemma example_distances:
  "dist3d example_RR 100 0 0 200 0 0 = 100"
  "dist3d example_RR 0 0 0 200 0 0 = 200"
proof -
  have "sqrt (100 * 100) = 100" "sqrt (200 * 200) = 200"
    by (simp_all only: real_sqrt_abs2 abs_numeral)
  then have "sqrt 10000 = 100" "sqrt 40000 = 200"
    by simp_all
  then show "dist3d example_RR 100 0 0 200 0 0 = 100" "dist3d example_RR 0 0 0 200 0 0 = 200"
    by (simp_all add: dist3d_def example_RR_def)
qed

lemma example_considered:
  "\<not> considered 2000 (c_members (example_located eps) 2)"
  "considered 2000 (c_members (example_located eps) 3) \<longleftrightarrow> eps \<noteq> []"
  by (simp_all add: considered_def example_located_fields example_cluster_fields ZT_CLUSTER_TIMEOUT_def)

lemma example_locate:
  "addressToLocationFunction example_RR = Some (\<lambda>a. Some (200, 0, 0))"
  by (simp add: example_RR_def)

lemma example_redirect:
  "findBetterEndpoint example_RR 2000 0x0102030405 example_peer offload (example_located [a]) =
     (if ss_family a = AF_INET then Some a else None)"
  by (simp add: findBetterEndpoint_def example_locate example_located_fields Let_def
      example_considered example_distances example_peer_def)

subsection \<open>Rounding to the \<^verbatim>\<open>double\<close> format\<close>

lemma round_even_of_int: "round_even (of_int j) = j"
  by (simp add: round_even_def)

lemma binary64_exponent:
  assumes "2 ^ n \<le> \<bar>x\<bar>" and "\<bar>x\<bar> < 2 ^ Suc n"
  shows "\<lfloor>log 2 \<bar>x\<bar>\<rfloor> = int n"
proof -
  have "(0::real) < 2 ^ n" by simp
  then have pos: "0 < \<bar>x\<bar>"
    using assms(1) by (rule less_le_trans)
  have a: "2 powr real_of_int (int n) = (2::real) ^ n"
    by (simp add: powr_realpow)
  have "real_of_int (int n + 1) = real (Suc n)" by simp
  then have b: "2 powr real_of_int (int n + 1) = (2::real) ^ Suc n"
    by (simp only: powr_realpow zero_less_numeral)
  have "2 powr real_of_int (int n) \<le> \<bar>x\<bar> \<and> \<bar>x\<bar> < 2 powr real_of_int (int n + 1)"
    unfolding a b using assms by simp
  then show ?thesis
    using floor_log_eq_powr_iff[of "\<bar>x\<bar>" 2 "int n"] pos by simp
qed

lemma binary64_round_unfold:
  assumes "2 ^ n \<le> \<bar>x\<bar>" and "\<bar>x\<bar> < 2 ^ Suc n"
  shows "binary64_round x =
           of_int (round_even (x / 2 powr real_of_int (int n - 52))) * 2 powr real_of_int (int n - 52)"
proof -
  have "(0::real) < 2 ^ n" by simp
  then have "0 < \<bar>x\<bar>"
    using assms(1) by (rule less_le_trans)
  then have "x \<noteq> 0" by simp
  then show ?thesis
    unfolding binary64_round_def Let_def binary64_exponent[OF assms] by simp
qed

lemma binary64_round_int:
  assumes "\<bar>k\<bar> < 2 ^ 53"
  shows "binary64_round (of_int k) = of_int k"
proof (cases "k = 0")
  case True
  then show ?thesis by (simp add: binary64_round_def)
next
  case False
  then have "1 \<le> nat \<bar>k\<bar>" by simp
  then obtain n where n: "2 ^ n \<le> nat \<bar>k\<bar>" "nat \<bar>k\<bar> < 2 ^ (n + 1)"
    using ex_power_ivl1[of 2 "nat \<bar>k\<bar>"] by auto
  have ilo: "(2::int) ^ n \<le> \<bar>k\<bar>"
  proof -
    have "int (2 ^ n) \<le> int (nat \<bar>k\<bar>)" using n(1) by (rule of_nat_mono)
    then show ?thesis by simp
  qed
  have ihi: "\<bar>k\<bar> < (2::int) ^ Suc n"
  proof -
    have "int (nat \<bar>k\<bar>) < int (2 ^ (n + 1))" using n(2) by (rule of_nat_less_iff[THEN iffD2])
    then show ?thesis by simp
  qed
  have lo: "(2::real) ^ n \<le> \<bar>of_int k\<bar>"
  proof -
    have "real_of_int (2 ^ n) \<le> real_of_int \<bar>k\<bar>" using ilo by (rule of_int_le_iff[THEN iffD2])
    then show ?thesis by simp
  qed
  have hi: "\<bar>of_int k :: real\<bar> < 2 ^ Suc n"
  proof -
    have "real_of_int \<bar>k\<bar> < real_of_int (2 ^ Suc n)" using ihi by (rule of_int_less_iff[THEN iffD2])
    then show ?thesis by simp
  qed
  have "(2::int) ^ n < 2 ^ 53"
    using ilo assms by (rule le_less_trans)
  then have "n < 53"
    by (rule power_less_imp_less_exp[rotated]) simp
  then have n52: "n \<le> 52" by simp
  have u: "2 powr real_of_int (int n - 52) = 1 / 2 ^ (52 - n)"
  proof (cases "n = 52")
    case True
    then show ?thesis by simp
  next
    case False
    then have "\<not> 0 \<le> int n - 52" using n52 by simp
    moreover have "nat (- (int n - 52)) = 52 - n" by simp
    ultimately show ?thesis
      using powr_real_of_int[of 2 "int n - 52"] by (simp add: inverse_eq_divide)
  qed
  have "of_int k / (1 / 2 ^ (52 - n)) = (of_int (k * 2 ^ (52 - n)) :: real)"
    by simp
  then have r: "round_even (of_int k / (1 / 2 ^ (52 - n))) = k * 2 ^ (52 - n)"
    by (simp only: round_even_of_int)
  have "binary64_round (of_int k) = of_int (k * 2 ^ (52 - n)) * (1 / 2 ^ (52 - n))"
    unfolding binary64_round_unfold[OF lo hi] u r ..
  then show ?thesis by simp
qed

lemma round_even_divide:
  assumes "0 < u"
  shows "round_even (of_int q / of_int u) = nearest_even q u"
proof -
  have f: "\<lfloor>real_of_int q / real_of_int u\<rfloor> = q div u"
    by (rule floor_divide_of_int_eq)
  have "q = q div u * u + q mod u" by simp
  then have "real_of_int q = real_of_int (q div u * u + q mod u)" by simp
  then have "real_of_int q = real_of_int (q div u) * real_of_int u + real_of_int (q mod u)"
    by (simp only: of_int_add of_int_mult)
  then have r: "real_of_int q / real_of_int u - real_of_int (q div u) = real_of_int (q mod u) / real_of_int u"
    using assms by (simp add: field_simps)
  have "(real_of_int (q mod u) / real_of_int u < 1 / 2) = (real_of_int (2 * (q mod u)) < real_of_int u)"
    using assms by (simp add: field_simps)
  also have "\<dots> = (2 * (q mod u) < u)" by (rule of_int_less_iff)
  finally have a: "(real_of_int (q mod u) / real_of_int u < 1 / 2) = (2 * (q mod u) < u)" .
  have "(1 / 2 < real_of_int (q mod u) / real_of_int u) = (real_of_int u < real_of_int (2 * (q mod u)))"
    using assms by (simp add: field_simps)
  also have "\<dots> = (u < 2 * (q mod u))" by (rule of_int_less_iff)
  finally have b: "(1 / 2 < real_of_int (q mod u) / real_of_int u) = (u < 2 * (q mod u))" .
  show ?thesis
    by (simp only: round_even_def nearest_even_def Let_def f r a b)
qed

lemma binary64_round_big:
  assumes "2 ^ n \<le> q" and "q < 2 ^ Suc n" and "52 \<le> n"
  shows "binary64_round (of_int q) = of_int (nearest_even q (2 ^ (n - 52)) * 2 ^ (n - 52))"
proof -
  have "(0::int) < 2 ^ n" by simp
  then have qpos: "0 < q" using assms(1) by (rule less_le_trans)
  have lo: "(2::real) ^ n \<le> \<bar>of_int q\<bar>"
  proof -
    have "real_of_int (2 ^ n) \<le> real_of_int q" using assms(1) by (rule of_int_le_iff[THEN iffD2])
    then show ?thesis using qpos by simp
  qed
  have hi: "\<bar>of_int q :: real\<bar> < 2 ^ Suc n"
  proof -
    have "real_of_int q < real_of_int (2 ^ Suc n)" using assms(2) by (rule of_int_less_iff[THEN iffD2])
    then show ?thesis using qpos by simp
  qed
  have eq: "real_of_int (int n - 52) = real (n - 52)" using assms(3) by simp
  have "2 powr real (n - 52) = (2::real) ^ (n - 52)"
    by (rule powr_realpow) simp
  then have u: "2 powr real_of_int (int n - 52) = real_of_int (2 ^ (n - 52))"
    unfolding eq by simp
  have r: "round_even (of_int q / real_of_int (2 ^ (n - 52))) = nearest_even q (2 ^ (n - 52))"
    by (rule round_even_divide) simp
  have "binary64_round (of_int q) =
          of_int (nearest_even q (2 ^ (n - 52))) * real_of_int (2 ^ (n - 52))"
    unfolding binary64_round_unfold[OF lo hi] u r ..
  then show ?thesis by (simp only: of_int_mult)
qed

lemma binary64_round_sqrt:
  assumes "f * f \<le> S * 2 ^ 40" and "S * 2 ^ 40 < (f + 1) * (f + 1)"
    and "2 ^ 52 \<le> f" and "f < 2 ^ 53"
  shows "binary64_round (sqrt (of_int S)) =
           of_int (if 4 * (S * 2 ^ 40) < (2 * f + 1) * (2 * f + 1) then f else f + 1) / 2 ^ 20"
proof -
  define y where "y = sqrt (of_int S) / (1 / 2 ^ 20)"
  define b where "b = (2 * real_of_int f + 1) / 2"
  have y: "y = sqrt (of_int (S * 2 ^ 40))"
  proof -
    have "sqrt ((2::real) ^ 40) = 2 ^ 20"
      by (rule real_sqrt_unique) simp_all
    then show ?thesis by (simp add: y_def real_sqrt_mult)
  qed
  have fpos: "0 \<le> f" using assms(3) by simp
  have lo: "of_int f \<le> y"
  proof -
    have "real_of_int (f * f) \<le> real_of_int (S * 2 ^ 40)"
      using assms(1) by (rule of_int_le_iff[THEN iffD2])
    then have "(real_of_int f)\<^sup>2 \<le> real_of_int (S * 2 ^ 40)"
      by (simp add: power2_eq_square)
    then show ?thesis unfolding y by (rule real_le_rsqrt)
  qed
  have hi: "y < of_int f + 1"
  proof -
    have "real_of_int (S * 2 ^ 40) < real_of_int ((f + 1) * (f + 1))"
      using assms(2) by (rule of_int_less_iff[THEN iffD2])
    then have "real_of_int (S * 2 ^ 40) < (real_of_int f + 1)\<^sup>2"
      by (simp add: power2_eq_square)
    moreover have "0 \<le> real_of_int f + 1" using fpos by simp
    ultimately show ?thesis unfolding y by (intro real_less_lsqrt)
  qed
  have fl: "\<lfloor>y\<rfloor> = f"
    using lo hi by (rule floor_unique)
  have bpos: "0 \<le> b" using fpos by (simp add: b_def)
  then have sb: "sqrt (b\<^sup>2) = b" by simp
  have b2: "b\<^sup>2 = real_of_int ((2 * f + 1) * (2 * f + 1)) / 4"
    by (simp add: b_def power2_eq_square)
  have "(y < b) = (sqrt (of_int (S * 2 ^ 40)) < sqrt (b\<^sup>2))"
    unfolding y sb ..
  also have "\<dots> = (real_of_int (S * 2 ^ 40) < b\<^sup>2)"
    by (rule real_sqrt_less_iff)
  also have "\<dots> = (real_of_int (4 * (S * 2 ^ 40)) < real_of_int ((2 * f + 1) * (2 * f + 1)))"
    unfolding b2 by simp
  also have "\<dots> = (4 * (S * 2 ^ 40) < (2 * f + 1) * (2 * f + 1))"
    by (rule of_int_less_iff)
  finally have lt: "(y < b) = (4 * (S * 2 ^ 40) < (2 * f + 1) * (2 * f + 1))" .
  have "(b < y) = (sqrt (b\<^sup>2) < sqrt (of_int (S * 2 ^ 40)))"
    unfolding y sb ..
  also have "\<dots> = (b\<^sup>2 < real_of_int (S * 2 ^ 40))"
    by (rule real_sqrt_less_iff)
  also have "\<dots> = (real_of_int ((2 * f + 1) * (2 * f + 1)) < real_of_int (4 * (S * 2 ^ 40)))"
    unfolding b2 by simp
  also have "\<dots> = ((2 * f + 1) * (2 * f + 1) < 4 * (S * 2 ^ 40))"
    by (rule of_int_less_iff)
  finally have gt: "(b < y) = ((2 * f + 1) * (2 * f + 1) < 4 * (S * 2 ^ 40))" .
  have odd: "4 * (S * 2 ^ 40) \<noteq> (2 * f + 1) * (2 * f + 1)"
  proof
    assume "4 * (S * 2 ^ 40) = (2 * f + 1) * (2 * f + 1)"
    moreover have "even (4 * (S * 2 ^ 40))" by simp
    ultimately have "even ((2 * f + 1) * (2 * f + 1))" by simp
    then show False by simp
  qed
  have h1: "(y - of_int f < 1 / 2) = (y < b)" by (auto simp: b_def field_simps)
  have h2: "(1 / 2 < y - of_int f) = (b < y)" by (auto simp: b_def field_simps)
  have re: "round_even y = (if 4 * (S * 2 ^ 40) < (2 * f + 1) * (2 * f + 1) then f else f + 1)"
  proof (cases "4 * (S * 2 ^ 40) < (2 * f + 1) * (2 * f + 1)")
    case True
    then show ?thesis unfolding round_even_def Let_def fl h1 h2 lt gt by simp
  next
    case False
    then have "(2 * f + 1) * (2 * f + 1) < 4 * (S * 2 ^ 40)" using odd by linarith
    then show ?thesis using False unfolding round_even_def Let_def fl h1 h2 lt gt by simp
  qed
  have ylo: "(2::real) ^ 52 \<le> y"
  proof -
    have "real_of_int (2 ^ 52) \<le> real_of_int f" using assms(3) by (rule of_int_le_iff[THEN iffD2])
    then show ?thesis using lo by simp
  qed
  have yhi: "y < 2 ^ 53"
  proof -
    have "f + 1 \<le> 2 ^ 53" using assms(4) by simp
    then have "real_of_int (f + 1) \<le> real_of_int (2 ^ 53)" by (rule of_int_le_iff[THEN iffD2])
    then show ?thesis using hi by simp
  qed
  have "(2::real) ^ 32 \<le> \<bar>sqrt (of_int S)\<bar>" "\<bar>sqrt (real_of_int S)\<bar> < 2 ^ Suc 32"
    using ylo yhi by (simp_all add: y_def)
  note unf = binary64_round_unfold[OF this]
  have u: "2 powr real_of_int (int 32 - 52) = 1 / 2 ^ 20"
    by (simp add: powr_neg_numeral)
  have "binary64_round (sqrt (of_int S)) = of_int (round_even y) * (1 / 2 ^ 20)"
    unfolding unf u y_def ..
  then show ?thesis
    unfolding re by simp
qed

lemma binary64_difference:
  "binary64_round (binary64_round (real_of_int (sint (a :: 32 word)))
                   - binary64_round (real_of_int (sint (b :: 32 word))))
     = real_of_int (sint a - sint b)"
proof -
  have a: "- (2 ^ 31) \<le> sint a" "sint a < 2 ^ 31"
    using sint_ge[of a] sint_lt[of a] by simp_all
  have b: "- (2 ^ 31) \<le> sint b" "sint b < 2 ^ 31"
    using sint_ge[of b] sint_lt[of b] by simp_all
  have "\<bar>sint a\<bar> < 2 ^ 53" "\<bar>sint b\<bar> < 2 ^ 53" "\<bar>sint a - sint b\<bar> < 2 ^ 53"
    using a b by simp_all
  then have "binary64_round (real_of_int (sint a)) = real_of_int (sint a)"
    "binary64_round (real_of_int (sint b)) = real_of_int (sint b)"
    "binary64_round (real_of_int (sint a - sint b)) = real_of_int (sint a - sint b)"
    by (simp_all only: binary64_round_int)
  then show ?thesis by (simp only: of_int_diff)
qed

lemma dist3d_binary64:
  "dist3d example_RR64 x1 y1 z1 x2 y2 z2 =
     binary64_round (sqrt (binary64_round (binary64_round
        (binary64_round (real_of_int ((sint x2 - sint x1) * (sint x2 - sint x1)))
         + binary64_round (real_of_int ((sint y2 - sint y1) * (sint y2 - sint y1))))
         + binary64_round (real_of_int ((sint z2 - sint z1) * (sint z2 - sint z1))))))"
proof -
  have "double_round example_RR64 = binary64_round"
    by (simp add: example_RR64_def)
  then show ?thesis
    by (simp only: dist3d_def Let_def binary64_difference of_int_mult)
qed

lemma example_close_rounding:
  "binary64_round 6665748142993440400 = 6665748142993440768"
  "binary64_round 16666707061727573904 = 16666707061727574016"
  "binary64_round 7796425409160096361 = 7796425409160096768"
  "binary64_round 23332455204721014784 = 23332455204721016832"
  "binary64_round 31128880613881113600 = 31128880613881114624"
  "binary64_round 6659241662376523801 = 6659241662376523776"
  "binary64_round 14444702046715449600 = 14444702046715449344"
  "binary64_round 10024936904789141776 = 10024936904789141504"
  "binary64_round 21103943709091973120 = 21103943709091971072"
  "binary64_round 31128880613881112576 = 31128880613881110528"
  using binary64_round_big[of 62 6665748142993440400]
    binary64_round_big[of 63 16666707061727573904]
    binary64_round_big[of 62 7796425409160096361]
    binary64_round_big[of 64 23332455204721014784]
    binary64_round_big[of 64 31128880613881113600]
    binary64_round_big[of 62 6659241662376523801]
    binary64_round_big[of 63 14444702046715449600]
    binary64_round_big[of 63 10024936904789141776]
    binary64_round_big[of 64 21103943709091973120]
    binary64_round_big[of 64 31128880613881112576]
  by (simp_all add: nearest_even_def)

lemma example_close_roots:
  "binary64_round (sqrt 31128880613881114624) = 5850347527678437 / 1048576"
  "binary64_round (sqrt 31128880613881110528) = 5850347527678436 / 1048576"
  using binary64_round_sqrt[of 5850347527678436 31128880613881114624]
    binary64_round_sqrt[of 5850347527678436 31128880613881110528]
  by simp_all

lemma example_close_fields:
  "c_memberIds example_close = [2, 3]"
  "c_x example_close = - 434327373" "c_y example_close = - 1935004205" "c_z example_close = - 644724334"
  "m_x (c_members example_close 2) = 0" "m_y (c_members example_close 2) = 0"
  "m_z (c_members example_close 2) = 0"
  "m_x (c_members example_close 3) = - 433067004" "m_y (c_members example_close 3) = - 1653134993"
  "m_z (c_members example_close 3) = - 1018734429"
  "m_lastReceivedAliveAnnouncement (c_members example_close 3) = 1000"
  "m_zeroTierPhysicalEndpoints (c_members example_close 3) = [example_v4]"
  by (simp_all add: example_close_def update_member_def example_cluster_fields)

lemma example_close_sint:
  "sint (2147483647 :: 32 word) = 2147483647"
  "sint (- 434327373 :: 32 word) = - 434327373"
  "sint (- 1935004205 :: 32 word) = - 1935004205"
  "sint (- 644724334 :: 32 word) = - 644724334"
  "sint (- 433067004 :: 32 word) = - 433067004"
  "sint (- 1653134993 :: 32 word) = - 1653134993"
  "sint (- 1018734429 :: 32 word) = - 1018734429"
  by simp_all

lemma example_close_distances:
  "dist3d example_RR64 (- 434327373) (- 1935004205) (- 644724334) 2147483647 2147483647 2147483647
     = 5850347527678437 / 1048576"
  "dist3d example_RR64 (- 433067004) (- 1653134993) (- 1018734429) 2147483647 2147483647 2147483647
     = 5850347527678436 / 1048576"
  by (simp_all add: dist3d_binary64 example_close_sint example_close_rounding example_close_roots)

lemma example_close_euclidean:
  "euclidean_distance (- 434327373, - 1935004205, - 644724334) (2147483647, 2147483647, 2147483647)
     = sqrt 31128880613881110665"
  "euclidean_distance (- 433067004, - 1653134993, - 1018734429) (2147483647, 2147483647, 2147483647)
     = sqrt 31128880613881115177"
  by (simp_all add: euclidean_distance_def example_close_sint power2_eq_square)

subsection \<open>Soundness of a redirect\<close>

text \<open>
  C7. Geo-redirect soundness, as stated for the Euclidean distance, fails: the code compares
  the distances that \<^verbatim>\<open>_dist3d\<close> computes in \<^verbatim>\<open>double\<close>, and rounding can invert a comparison.
  With the rounding of the binary64 format, a peer located at
  (2147483647, 2147483647, 2147483647), ourselves at (-434327373, -1935004205, -644724334)
  and member 3 at (-433067004, -1653134993, -1018734429), the computed distances are
  5850347527678436 / 2^20 for the member and 5850347527678437 / 2^20 for us, so the peer is
  redirected to member 3 (\<open>offload\<close> is not set); but the squares of the Euclidean distances
  are 31128880613881115177 for the member and 31128880613881110665 for us: the member is
  farther away than we are. Member 2, the only other member, advertises no endpoint.
\<close>

theorem findBetterEndpoint_sound_counterexample:
  "findBetterEndpoint example_RR64 2000 0x0102030405 example_peer False example_close = Some example_v4
   \<and> c_memberIds example_close = [2, 3]
   \<and> m_zeroTierPhysicalEndpoints (c_members example_close 2) = []
   \<and> euclidean_distance (c_x example_close, c_y example_close, c_z example_close)
         (2147483647, 2147483647, 2147483647)
       < euclidean_distance (m_x (c_members example_close 3), m_y (c_members example_close 3),
           m_z (c_members example_close 3)) (2147483647, 2147483647, 2147483647)"
proof -
  have l: "addressToLocationFunction example_RR64 = Some (\<lambda>a. Some (2147483647, 2147483647, 2147483647))"
    by (simp add: example_RR64_def)
  have c: "considered 2000 (c_members example_close 3)" "\<not> considered 2000 (c_members example_close 2)"
    by (simp_all add: considered_def example_close_fields ZT_CLUSTER_TIMEOUT_def)
  have e2: "m_zeroTierPhysicalEndpoints (c_members example_close 2) = []"
    by (simp add: example_close_def update_member_def example_cluster_fields)
  have r: "findBetterEndpoint example_RR64 2000 0x0102030405 example_peer False example_close
      = Some example_v4"
    by (simp add: findBetterEndpoint_def l example_close_fields c Let_def example_close_distances
        example_peer_def example_v4_def)
  show ?thesis
    by (simp add: r e2 example_close_fields example_close_euclidean)
qed

text \<open>
  C7, amended. When \<^verbatim>\<open>findBetterEndpoint\<close> returns an endpoint \<open>E\<close>, the geolocation callback
  is installed and gave a point for the peer's physical address, and some member \<open>M\<close> of the
  member id set is considered (heard within \<^verbatim>\<open>ZT_CLUSTER_TIMEOUT\<close>, located elsewhere than
  (0, 0, 0), with at least one endpoint), advertises \<open>E\<close>, is at a computed distance from that
  point (the \<^verbatim>\<open>double\<close> that \<^verbatim>\<open>_dist3d\<close> returns, whatever the rounding) strictly below the
  baseline (our own computed distance, or 2147483648 when offloading), and \<open>E\<close> has the
  address family of the peer's physical address.
\<close>

theorem findBetterEndpoint_sound:
  assumes "findBetterEndpoint RR now peerAddress peerPhysicalAddress offload c = Some E"
  shows "\<exists>locate p. addressToLocationFunction RR = Some locate \<and> locate peerPhysicalAddress = Some p
           \<and> (\<exists>M \<in> set (c_memberIds c).
                 considered now (c_members c M)
               \<and> E \<in> set (m_zeroTierPhysicalEndpoints (c_members c M))
               \<and> member_distance RR c p M < baseline RR c p offload
               \<and> ss_family E = ss_family peerPhysicalAddress)"
proof -
  from assms obtain locate where loc: "addressToLocationFunction RR = Some locate"
    by (auto simp: findBetterEndpoint_def split: option.splits)
  from assms loc obtain p where p: "locate peerPhysicalAddress = Some p"
    by (auto simp: findBetterEndpoint_def split: option.splits)
  obtain bd' bm' b' where run:
    "closest_member RR now c p (c_memberIds c) (baseline RR c p offload, c_id c, []) = (bd', bm', b')"
    by (cases "closest_member RR now c p (c_memberIds c) (baseline RR c p offload, c_id c, [])")
  from assms loc p run have found: "find (\<lambda>a. ss_family a = ss_family peerPhysicalAddress) b' = Some E"
    by (cases p) (auto simp: findBetterEndpoint_def baseline_def Let_def split: prod.splits)
  then have E: "E \<in> set b'" and fam: "ss_family E = ss_family peerPhysicalAddress"
    by (auto simp: find_Some_iff)
  then have ne: "b' \<noteq> []" by auto
  from closest_member_sound[OF run, of "set (c_memberIds c)" "baseline RR c p offload"] ne
  obtain M where M: "M \<in> set (c_memberIds c)" "considered now (c_members c M)"
    "b' = m_zeroTierPhysicalEndpoints (c_members c M)" "member_distance RR c p M = bd'"
    by auto
  from closest_member_strict[OF run, of "baseline RR c p offload"] ne
  have "bd' < baseline RR c p offload" by simp
  with M E fam loc p show ?thesis by blast
qed

theorem findBetterEndpoint_sound_witness:
  "findBetterEndpoint example_RR 2000 0x0102030405 example_peer False (example_located [example_v4])
     = Some example_v4
   \<and> considered 2000 (c_members (example_located [example_v4]) 3)
   \<and> member_distance example_RR (example_located [example_v4]) (200, 0, 0) 3 = 100
   \<and> baseline example_RR (example_located [example_v4]) (200, 0, 0) False = 200
   \<and> ss_family example_v4 = ss_family example_peer"
proof -
  have r: "findBetterEndpoint example_RR 2000 0x0102030405 example_peer False (example_located [example_v4])
     = Some example_v4"
    by (simp add: example_redirect example_v4_def)
  from findBetterEndpoint_sound [OF r]
  have "ss_family example_v4 = ss_family example_peer" by blast
  with r show ?thesis
    by (simp add: example_considered member_distance_def baseline_def example_located_fields
        example_distances)
qed

text \<open>
  C8. Offload completeness, as stated, fails: with \<open>offload\<close> set, a point for the peer and a
  considered member at distance 100 whose only endpoint is an IPv6 address, a peer that
  talks IPv4 is not redirected.
\<close>

theorem findBetterEndpoint_offload_counterexample:
  "addressToLocationFunction example_RR = Some (\<lambda>a. Some (200, 0, 0))
   \<and> considered 2000 (c_members (example_located [example_v6]) 3)
   \<and> 3 \<in> set (c_memberIds (example_located [example_v6]))
   \<and> findBetterEndpoint example_RR 2000 0x0102030405 example_peer True (example_located [example_v6]) = None"
  by (simp add: example_redirect example_v6_def example_considered example_located_fields example_locate)

text \<open>
  The bound on the distance cannot be dropped either: a considered member with an IPv4
  endpoint that is 4294967295 away from the peer is not chosen, although \<open>offload\<close> is set.
\<close>

lemma example_far_distance:
  "dist3d example_RR_far 0x7fffffff 0 0 0x80000000 0 0 = 4294967295"
proof -
  have "sqrt (4294967295 * 4294967295) = 4294967295"
    by (simp only: real_sqrt_abs2 abs_numeral)
  then have "sqrt 18446744065119617025 = 4294967295"
    by simp
  then show ?thesis
    by (simp add: dist3d_def example_RR_far_def example_RR_def)
qed

lemma findBetterEndpoint_offload_far:
  "considered 2000 (c_members example_far 3)
   \<and> (\<exists>E \<in> set (m_zeroTierPhysicalEndpoints (c_members example_far 3)). ss_family E = ss_family example_peer)
   \<and> findBetterEndpoint example_RR_far 2000 0x0102030405 example_peer True example_far = None"
proof -
  have f: "c_memberIds example_far = [2, 3]"
    "m_x (c_members example_far 2) = 0" "m_y (c_members example_far 2) = 0" "m_z (c_members example_far 2) = 0"
    "m_x (c_members example_far 3) = 0x7fffffff" "m_y (c_members example_far 3) = 0"
    "m_z (c_members example_far 3) = 0"
    "m_lastReceivedAliveAnnouncement (c_members example_far 3) = 1000"
    "m_zeroTierPhysicalEndpoints (c_members example_far 3) = [InetAddress AF_INET [203, 0, 113, 5] 9993]"
    by (simp_all add: example_far_def update_member_def example_cluster_fields)
  have l: "addressToLocationFunction example_RR_far = Some (\<lambda>a. Some (0x80000000, 0, 0))"
    by (simp add: example_RR_far_def)
  have c: "considered 2000 (c_members example_far 3)" "\<not> considered 2000 (c_members example_far 2)"
    by (simp_all add: considered_def f ZT_CLUSTER_TIMEOUT_def)
  show ?thesis
    by (simp add: findBetterEndpoint_def l f c Let_def example_far_distance example_peer_def)
qed

lemma example_two_fields:
  "c_memberIds example_two = [2, 3]"
  "m_zeroTierPhysicalEndpoints (c_members example_two 2) = [example_v6]"
  "m_zeroTierPhysicalEndpoints (c_members example_two 3) = [example_v4]"
  "m_x (c_members example_two 2) = 50" "m_y (c_members example_two 2) = 0" "m_z (c_members example_two 2) = 0"
  "m_x (c_members example_two 3) = 100" "m_y (c_members example_two 3) = 0" "m_z (c_members example_two 3) = 0"
  "m_lastReceivedAliveAnnouncement (c_members example_two 2) = 1000"
  "m_lastReceivedAliveAnnouncement (c_members example_two 3) = 1000"
  by (simp_all add: example_two_def update_member_def example_located_fields example_cluster_fields)

lemma example_two_distances:
  "member_distance example_RR example_two (200, 0, 0) 2 = 150"
  "member_distance example_RR example_two (200, 0, 0) 3 = 100"
proof -
  have "sqrt (150 * 150) = 150" "sqrt (100 * 100) = 100"
    by (simp_all only: real_sqrt_abs2 abs_numeral)
  then have "sqrt 22500 = 150" "sqrt 10000 = 100"
    by simp_all
  then show "member_distance example_RR example_two (200, 0, 0) 2 = 150"
    "member_distance example_RR example_two (200, 0, 0) 3 = 100"
    by (simp_all add: member_distance_def dist3d_def example_RR_def example_two_fields)
qed

lemma example_two_considered:
  "considered 2000 (c_members example_two 2)" "considered 2000 (c_members example_two 3)"
  by (simp_all add: considered_def example_two_fields ZT_CLUSTER_TIMEOUT_def)

text \<open>
  C8, amended. With \<open>offload\<close> set, a point for the peer's physical address and some
  considered member at a computed distance below 2147483648 from it, the loop selects the
  considered member \<open>M\<close> that is nearest to the point, the first in the order of the member
  ids among those equally near, and \<^verbatim>\<open>findBetterEndpoint\<close> returns the first endpoint of \<open>M\<close>
  that has the address family of the peer's physical address. It returns an endpoint if
  and only if \<open>M\<close> advertises one of that family; what the other members advertise does not
  matter.
\<close>

theorem findBetterEndpoint_offload:
  assumes "addressToLocationFunction RR = Some locate"
    and "locate peerPhysicalAddress = Some p"
    and "\<exists>M \<in> set (c_memberIds c). considered now (c_members c M) \<and> member_distance RR c p M < 2147483648"
  shows "\<exists>pre M post. c_memberIds c = pre @ M # post
           \<and> considered now (c_members c M) \<and> member_distance RR c p M < 2147483648
           \<and> (\<forall>M' \<in> set pre. considered now (c_members c M') \<longrightarrow>
                 member_distance RR c p M < member_distance RR c p M')
           \<and> (\<forall>M' \<in> set post. considered now (c_members c M') \<longrightarrow>
                 member_distance RR c p M \<le> member_distance RR c p M')
           \<and> findBetterEndpoint RR now peerAddress peerPhysicalAddress True c
               = find (\<lambda>a. ss_family a = ss_family peerPhysicalAddress)
                   (m_zeroTierPhysicalEndpoints (c_members c M))
           \<and> (findBetterEndpoint RR now peerAddress peerPhysicalAddress True c \<noteq> None \<longleftrightarrow>
                (\<exists>E \<in> set (m_zeroTierPhysicalEndpoints (c_members c M)).
                    ss_family E = ss_family peerPhysicalAddress))"
proof -
  from closest_member_selects[of "c_memberIds c" now c RR p 2147483648 "c_id c" "[]"] assms(3)
  obtain pre M post where sel: "c_memberIds c = pre @ M # post"
    "considered now (c_members c M)" "member_distance RR c p M < 2147483648"
    "\<forall>M' \<in> set pre. considered now (c_members c M') \<longrightarrow>
        member_distance RR c p M < member_distance RR c p M'"
    "\<forall>M' \<in> set post. considered now (c_members c M') \<longrightarrow>
        member_distance RR c p M \<le> member_distance RR c p M'"
    and run: "closest_member RR now c p (c_memberIds c) (2147483648, c_id c, [])
        = (member_distance RR c p M, M, m_zeroTierPhysicalEndpoints (c_members c M))"
    by blast
  have res: "findBetterEndpoint RR now peerAddress peerPhysicalAddress True c
      = find (\<lambda>a. ss_family a = ss_family peerPhysicalAddress) (m_zeroTierPhysicalEndpoints (c_members c M))"
    using assms(1,2) run by (cases p) (simp add: findBetterEndpoint_def Let_def)
  have "(findBetterEndpoint RR now peerAddress peerPhysicalAddress True c \<noteq> None) \<longleftrightarrow>
      (\<exists>E \<in> set (m_zeroTierPhysicalEndpoints (c_members c M)). ss_family E = ss_family peerPhysicalAddress)"
    unfolding res by (auto simp: find_None_iff)
  with sel res show ?thesis by blast
qed

theorem findBetterEndpoint_offload_witness:
  "findBetterEndpoint example_RR 2000 0x0102030405 example_peer True example_two = Some example_v4"
proof -
  have l: "addressToLocationFunction example_RR = Some (\<lambda>a. Some (200, 0, 0))"
    by (rule example_locate)
  have p: "(\<lambda>a. Some (200, 0, 0)) example_peer = Some (200 :: 32 word, 0 :: 32 word, 0 :: 32 word)"
    by simp
  have e: "\<exists>M \<in> set (c_memberIds example_two).
             considered 2000 (c_members example_two M)
             \<and> member_distance example_RR example_two (200, 0, 0) M < 2147483648"
    by (simp add: example_two_fields example_two_considered example_two_distances)
  from findBetterEndpoint_offload [OF l p e, of "0x0102030405"]
  obtain pre M post where sel: "c_memberIds example_two = pre @ M # post"
    "\<forall>M' \<in> set post. considered 2000 (c_members example_two M') \<longrightarrow>
        member_distance example_RR example_two (200, 0, 0) M
          \<le> member_distance example_RR example_two (200, 0, 0) M'"
    and res: "findBetterEndpoint example_RR 2000 0x0102030405 example_peer True example_two
      = find (\<lambda>a. ss_family a = ss_family example_peer) (m_zeroTierPhysicalEndpoints (c_members example_two M))"
    by blast
  from sel(1) have "(pre = [] \<and> M = 2 \<and> post = [3]) \<or> (pre = [2] \<and> M = 3 \<and> post = [])"
    by (auto simp: example_two_fields Cons_eq_append_conv)
  with sel(2) have "M = 3"
    by (auto simp: example_two_considered example_two_distances)
  then show ?thesis
    using res by (simp add: example_two_fields example_v4_def example_peer_def)
qed

end
